theory Spec2Isabelle
  imports Complex_Main "HOL-Library.Sublist"
begin

section \<open>The Python library operations the module relies on\<close>

text \<open>
  A Python \<open>str\<close> is a HOL \<open>string\<close>, one \<open>char\<close> per code point, so the text covered
  is the one whose code points are below 256. The operations of this section are the
  built-in ones the module calls (\<open>str.strip\<close>, \<open>str.split\<close>, \<open>in\<close>, \<open>str.lower\<close>,
  \<open>float\<close>, \<open>datetime.strptime\<close>, ...), written out on that range.
\<close>

definition is_space :: "char \<Rightarrow> bool" where
  \<comment> \<open>\<open>str.isspace\<close> on one character: TAB, LF, VT, FF, CR, FS, GS, RS, US, space, NEL, NBSP.\<close>
  "is_space c = (c \<in> set [CHR 0x09, CHR 0x0A, CHR 0x0B, CHR 0x0C, CHR 0x0D, CHR 0x1C,
                          CHR 0x1D, CHR 0x1E, CHR 0x1F, CHR 0x20, CHR 0x85, CHR 0xA0])"

definition py_strip :: "string \<Rightarrow> string" where
  \<comment> \<open>\<open>s.strip()\<close>\<close>
  "py_strip s = rev (dropWhile is_space (rev (dropWhile is_space s)))"

definition py_strip_chars :: "string \<Rightarrow> string \<Rightarrow> string" where
  \<comment> \<open>\<open>s.strip(chars)\<close>\<close>
  "py_strip_chars cs s =
     rev (dropWhile (\<lambda>c. c \<in> set cs) (rev (dropWhile (\<lambda>c. c \<in> set cs) s)))"

definition py_lstrip_chars :: "string \<Rightarrow> string \<Rightarrow> string" where
  \<comment> \<open>\<open>s.lstrip(chars)\<close>\<close>
  "py_lstrip_chars cs s = dropWhile (\<lambda>c. c \<in> set cs) s"

primrec py_split :: "char \<Rightarrow> string \<Rightarrow> string list" where
  \<comment> \<open>\<open>s.split(sep)\<close> for a separator of one character; never the empty list\<close>
  "py_split sep [] = [[]]"
| "py_split sep (c # cs) =
     (case py_split sep cs of
        w # ws \<Rightarrow> if c = sep then [] # w # ws else (c # w) # ws
      | [] \<Rightarrow> [[c]])"

definition py_remove :: "char \<Rightarrow> string \<Rightarrow> string" where
  \<comment> \<open>\<open>s.replace(c, '')\<close>\<close>
  "py_remove c s = filter (\<lambda>x. x \<noteq> c) s"

primrec py_in :: "string \<Rightarrow> string \<Rightarrow> bool" where
  \<comment> \<open>\<open>needle in hay\<close> on strings: \<open>needle\<close> occurs as a contiguous piece of \<open>hay\<close>\<close>
  "py_in needle [] = (needle = [])"
| "py_in needle (c # cs) = (prefix needle (c # cs) \<or> py_in needle cs)"

definition py_endswith :: "string \<Rightarrow> string \<Rightarrow> bool" where
  "py_endswith s e = suffix e s"

definition py_last6 :: "string \<Rightarrow> string" where
  \<comment> \<open>the slice \<open>s[-6:]\<close>\<close>
  "py_last6 s = drop (length s - 6) s"

definition lower_char :: "char \<Rightarrow> char" where
  \<comment> \<open>A-Z and the Latin-1 capitals (U+00C0..U+00DE but the multiplication sign)\<close>
  "lower_char c =
     (let n = (of_char c :: nat)
      in if (65 \<le> n \<and> n \<le> 90) \<or> (192 \<le> n \<and> n \<le> 222 \<and> n \<noteq> 215)
         then char_of (n + 32) else c)"

definition py_lower :: "string \<Rightarrow> string" where
  "py_lower s = map lower_char s"

definition upper_char :: "char \<Rightarrow> string" where
  \<comment> \<open>a-z and the Latin-1 small letters (U+00E0..U+00FE but the division sign); the sharp s
      becomes SS. The capitals of U+00B5 and U+00FF lie above 255: both are kept as they are,
      which leaves every test for an ASCII text in the result as Python has it.\<close>
  "upper_char c =
     (let n = (of_char c :: nat)
      in if c = CHR 0xDF then ''SS''
         else if (97 \<le> n \<and> n \<le> 122) \<or> (224 \<le> n \<and> n \<le> 254 \<and> n \<noteq> 247)
         then [char_of (n - 32)] else [c])"

definition py_upper :: "string \<Rightarrow> string" where
  "py_upper s = concat (map upper_char s)"

fun py_join :: "string \<Rightarrow> string list \<Rightarrow> string" where
  \<comment> \<open>\<open>sep.join(xs)\<close>\<close>
  "py_join sep [] = []"
| "py_join sep [x] = x"
| "py_join sep (x # y # ys) = x @ sep @ py_join sep (y # ys)"

definition is_ascii_digit :: "char \<Rightarrow> bool" where
  "is_ascii_digit c = (c \<in> set ''0123456789'')"

definition is_digit_char :: "char \<Rightarrow> bool" where
  \<comment> \<open>\<open>str.isdigit\<close> on one character: also the superscripts 2, 3 and 1 of Latin-1\<close>
  "is_digit_char c = (is_ascii_digit c \<or> c \<in> set [CHR 0xB2, CHR 0xB3, CHR 0xB9])"

definition py_isdigit :: "string \<Rightarrow> bool" where
  "py_isdigit s = (s \<noteq> [] \<and> list_all is_digit_char s)"

definition digit_val :: "char \<Rightarrow> nat" where
  "digit_val c = of_char c - 48"

definition digits_val :: "string \<Rightarrow> nat" where
  "digits_val s = foldl (\<lambda>a c. 10 * a + digit_val c) 0 s"

definition py_int :: "string \<Rightarrow> nat option" where
  \<comment> \<open>\<open>int(s)\<close> where the module calls it, on a string that passed \<open>isdigit\<close>: a superscript
      digit is no decimal digit and raises ValueError (\<open>None\<close>)\<close>
  "py_int s = (if s \<noteq> [] \<and> list_all is_ascii_digit s then Some (digits_val s) else None)"

definition py_float :: "string \<Rightarrow> rat option" where
  \<comment> \<open>\<open>float(s)\<close> on decimal text: surrounding white space, an optional sign, digits with an
      optional point. ValueError is \<open>None\<close>. Numbers are exact decimals: the exponent
      notation, digit-group underscores, inf and nan, and binary rounding are not modelled.\<close>
  "py_float s =
     (let t = py_strip s;
          neg = (t \<noteq> [] \<and> hd t = CHR ''-'');
          u = (if t \<noteq> [] \<and> (hd t = CHR ''-'' \<or> hd t = CHR ''+'') then tl t else t);
          ip = takeWhile is_ascii_digit u;
          r = dropWhile is_ascii_digit u;
          fp = (if r = [] then [] else tl r);
          ok = (if r = [] then ip \<noteq> []
                else hd r = CHR ''.'' \<and> list_all is_ascii_digit fp \<and> (ip \<noteq> [] \<or> fp \<noteq> []));
          v = foldl (\<lambda>a c. 10 * a + of_nat (digit_val c)) (0 :: rat) (ip @ fp) / 10 ^ length fp
      in if ok then Some (if neg then - v else v) else None)"

definition digit_char :: "nat \<Rightarrow> char" where
  "digit_char n = char_of (48 + n)"

fun py_str_nat :: "nat \<Rightarrow> string" where
  "py_str_nat n = (if n < 10 then [digit_char n] else py_str_nat (n div 10) @ [digit_char (n mod 10)])"

declare py_str_nat.simps [simp del]

definition py_str_int :: "int \<Rightarrow> string" where
  \<comment> \<open>\<open>str(i)\<close> of an integer\<close>
  "py_str_int i = (if i < 0 then CHR ''-'' # py_str_nat (nat (- i)) else py_str_nat (nat i))"

definition zero_pad :: "nat \<Rightarrow> nat \<Rightarrow> string" where
  \<comment> \<open>the formats \<open>%02d\<close> and \<open>%04d\<close>\<close>
  "zero_pad w n = replicate (w - length (py_str_nat n)) CHR ''0'' @ py_str_nat n"

subsection \<open>Calendar dates\<close>

record date =
  d_year :: nat
  d_month :: nat
  d_day :: nat

definition is_leap :: "nat \<Rightarrow> bool" where
  "is_leap y = (y mod 4 = 0 \<and> (0 < y mod 100 \<or> y mod 400 = 0))"

definition days_in_month :: "nat \<Rightarrow> nat \<Rightarrow> nat" where
  "days_in_month y m =
     (if m = 2 then (if is_leap y then 29 else 28)
      else if m = 4 \<or> m = 6 \<or> m = 9 \<or> m = 11 then 30 else 31)"

definition py_date :: "nat \<Rightarrow> nat \<Rightarrow> nat \<Rightarrow> date option" where
  \<comment> \<open>\<open>datetime(y, m, d).date()\<close>: ValueError (\<open>None\<close>) outside the calendar\<close>
  "py_date y m d =
     (if 1 \<le> y \<and> y \<le> 9999 \<and> 1 \<le> m \<and> m \<le> 12 \<and> 1 \<le> d \<and> d \<le> days_in_month y m
      then Some \<lparr>d_year = y, d_month = m, d_day = d\<rparr> else None)"

definition date_le :: "date \<Rightarrow> date \<Rightarrow> bool" where
  "date_le a b =
     (d_year a < d_year b \<or> (d_year a = d_year b \<and>
        (d_month a < d_month b \<or> (d_month a = d_month b \<and> d_day a \<le> d_day b))))"

datatype date_format = DMY_slash | YMD_dot | YMD_dash | DMY_dash | MDY_slash

datatype date_field = Field_d | Field_m | Field_Y

fun format_sep :: "date_format \<Rightarrow> char" where
  "format_sep DMY_slash = CHR ''/''"
| "format_sep YMD_dot = CHR ''.''"
| "format_sep YMD_dash = CHR ''-''"
| "format_sep DMY_dash = CHR ''-''"
| "format_sep MDY_slash = CHR ''/''"

fun format_fields :: "date_format \<Rightarrow> date_field list" where
  "format_fields DMY_slash = [Field_d, Field_m, Field_Y]"
| "format_fields YMD_dot = [Field_Y, Field_m, Field_d]"
| "format_fields YMD_dash = [Field_Y, Field_m, Field_d]"
| "format_fields DMY_dash = [Field_d, Field_m, Field_Y]"
| "format_fields MDY_slash = [Field_m, Field_d, Field_Y]"

fun field_ok :: "date_field \<Rightarrow> string \<Rightarrow> bool" where
  \<comment> \<open>what the directive accepts: \<open>%d\<close> is 3[0-1], [1-2]\d, 0[1-9], [1-9] or a space and [1-9];
      \<open>%m\<close> is 1[0-2], 0[1-9] or [1-9]; \<open>%Y\<close> is four digits\<close>
  "field_ok Field_d s =
     (case s of
        [a] \<Rightarrow> is_ascii_digit a \<and> a \<noteq> CHR ''0''
      | [a, b] \<Rightarrow>
          (a = CHR ''3'' \<and> (b = CHR ''0'' \<or> b = CHR ''1'')) \<or>
          ((a = CHR ''1'' \<or> a = CHR ''2'') \<and> is_ascii_digit b) \<or>
          ((a = CHR ''0'' \<or> a = CHR '' '') \<and> is_ascii_digit b \<and> b \<noteq> CHR ''0'')
      | _ \<Rightarrow> False)"
| "field_ok Field_m s =
     (case s of
        [a] \<Rightarrow> is_ascii_digit a \<and> a \<noteq> CHR ''0''
      | [a, b] \<Rightarrow>
          (a = CHR ''1'' \<and> (b = CHR ''0'' \<or> b = CHR ''1'' \<or> b = CHR ''2'')) \<or>
          (a = CHR ''0'' \<and> is_ascii_digit b \<and> b \<noteq> CHR ''0'')
      | _ \<Rightarrow> False)"
| "field_ok Field_Y s = (length s = 4 \<and> list_all is_ascii_digit s)"

definition field_val :: "string \<Rightarrow> nat" where
  "field_val s = digits_val (filter is_ascii_digit s)"

definition field_of :: "date_field \<Rightarrow> (date_field \<times> nat) list \<Rightarrow> nat" where
  "field_of f vs = (case map_of vs f of Some v \<Rightarrow> v | None \<Rightarrow> 0)"

definition py_strptime :: "string \<Rightarrow> date_format \<Rightarrow> date option" where
  \<comment> \<open>\<open>datetime.strptime(s, fmt).date()\<close> for the five formats the module tries, each three
      fields around one separator; ValueError is \<open>None\<close>\<close>
  "py_strptime s fmt =
     (let parts = py_split (format_sep fmt) s; fs = format_fields fmt
      in if length parts = 3 \<and> list_all (\<lambda>(f, p). field_ok f p) (zip fs parts)
         then (let vs = zip fs (map field_val parts)
               in py_date (field_of Field_Y vs) (field_of Field_m vs) (field_of Field_d vs))
         else None)"

definition xldate_as_date :: "int \<Rightarrow> date option" where
  \<comment> \<open>\<open>datetime(*xlrd.xldate_as_tuple(x, 0)[:3]).date()\<close> on a whole day serial of the 1900
      date system; an exception of either call is \<open>None\<close>\<close>
  "xldate_as_date x =
     (if x \<le> 0 \<or> 2958466 \<le> x \<or> x < 61 then None
      else (let jdn = nat x + 2415019;
                yreg = (((jdn * 4 + 274277) div 146097) * 3 div 4 + jdn + 1363) * 4 + 3;
                mp = ((yreg mod 1461) div 4) * 535 + 333;
                d = (mp mod 16384) div 535 + 1;
                mq = mp div 16384
            in if 10 \<le> mq then py_date (yreg div 1461 - 4715) (mq - 9) d
               else py_date (yreg div 1461 - 4716) (mq + 3) d))"

section \<open>Data model\<close>

datatype bank_type = BCP | Nacion | Continental | Other

fun bank_type_key :: "bank_type \<Rightarrow> string" where
  "bank_type_key BCP = ''bcp''"
| "bank_type_key Nacion = ''nacion''"
| "bank_type_key Continental = ''continental''"
| "bank_type_key Other = ''other''"

datatype file_type = Txt | Excel

datatype import_state = Draft | Processed | Matched

datatype match_tag = Exact | Partial

text \<open>
  A spreadsheet cell value as the readers hand it over: nothing, text, an integer or a
  date-time (of which the module keeps the date). Floating-point cell values are left out.
\<close>

datatype cell = CNone | CStr string | CInt int | CDateTime date

type_synonym row = "cell list"

text \<open>
  The uploaded payload is known to the module only through the decoders it calls on it:
  the UTF-8 text (\<open>None\<close> when decoding raises), the active sheet openpyxl loads and the
  named sheets xlrd opens (\<open>Inl\<close> the message of the exception raised instead).
\<close>

record file_bytes =
  utf8_text :: "string option"
  openpyxl_load :: "string + row list"
  xlrd_open :: "string + (string \<times> row list) list"

datatype payload = Bad_base64 | Bytes file_bytes

record bank_import =
  imp_id :: nat
  imp_name :: string
  file_data :: "payload option"
  file_name :: string
  bank_type :: bank_type
  imp_state :: import_state

record bank_import_line =
  line_id :: nat
  line_import_id :: nat
  transaction_date :: date
  description :: string
  amount :: rat
  operation_number :: string
  original_line :: string

record bank_import_match =
  match_id :: nat
  match_import_id :: nat
  import_line_id :: nat
  payment_id :: nat
  match_type :: match_tag

text \<open>
  A payment of the host registry. An empty text field reads as \<open>False\<close> in the host, which
  is the empty string here; \<open>communication\<close>, \<open>payment_reference\<close> and \<open>narration\<close> are
  \<open>None\<close> when the payment model has no such attribute.
\<close>

record account_payment =
  pay_id :: nat
  pay_state :: string
  pay_amount :: rat
  pay_date :: date
  pay_name :: string
  pay_memo :: string
  communication :: "string option"
  payment_reference :: "string option"
  narration :: "string option"

record clock =
  today :: date
  hour :: nat
  minute :: nat

text \<open>
  The store the methods run against: the Import they are called on, the three tables,
  the identifiers the store hands out next, the clock and the spreadsheet libraries
  installed. A raise leaves the store as it is at that point.
\<close>

record env =
  imp :: bank_import
  line_tbl :: "bank_import_line list"
  match_tbl :: "bank_import_match list"
  payment_tbl :: "account_payment list"
  next_line_id :: nat
  next_match_id :: nat
  now :: clock
  openpyxl_available :: bool
  xlrd_available :: bool

datatype error =
    No_file | Txt_error | No_data_extracted
  | No_excel_library | Excel_empty | Excel_corrupt | Excel_failed | Excel_unexpected
  | Header_not_found | Columns_not_mapped | No_rows_extracted
  | Continental_format | Continental_columns | Continental_no_rows
  | Process_first | Line_error | Match_create_error | Field_required
  | Library_error string | Attribute_error | Index_error

definition self_lines :: "env \<Rightarrow> bank_import_line list" where
  \<comment> \<open>\<open>self.line_ids\<close>\<close>
  "self_lines s = filter (\<lambda>l. line_import_id l = imp_id (imp s)) (line_tbl s)"

definition self_matches :: "env \<Rightarrow> bank_import_match list" where
  \<comment> \<open>\<open>self.matched_payment_ids\<close>\<close>
  "self_matches s = filter (\<lambda>m. match_import_id m = imp_id (imp s)) (match_tbl s)"

definition create_line :: "bank_import_line \<Rightarrow> env \<Rightarrow> env" where
  \<comment> \<open>\<open>self.env['bank.import.line'].create(vals)\<close>: the store assigns the identifier\<close>
  "create_line vals s =
     s\<lparr>line_tbl := line_tbl s @ [vals\<lparr>line_id := next_line_id s\<rparr>],
       next_line_id := Suc (next_line_id s)\<rparr>"

definition unlink_lines :: "env \<Rightarrow> env" where
  \<comment> \<open>\<open>self.line_ids.unlink()\<close>; the matches of a deleted line go with it (ondelete cascade)\<close>
  "unlink_lines s =
     s\<lparr>line_tbl := filter (\<lambda>l. line_import_id l \<noteq> imp_id (imp s)) (line_tbl s),
       match_tbl := filter (\<lambda>m. import_line_id m \<notin> set (map line_id (self_lines s))) (match_tbl s)\<rparr>"

definition unlink_matches :: "env \<Rightarrow> env" where
  \<comment> \<open>\<open>self.matched_payment_ids.unlink()\<close>\<close>
  "unlink_matches s =
     s\<lparr>match_tbl := filter (\<lambda>m. match_import_id m \<noteq> imp_id (imp s)) (match_tbl s)\<rparr>"

definition compute_file_type :: "string \<Rightarrow> file_type" where
  "compute_file_type fname =
     (if fname \<noteq> [] then
        (if py_endswith (py_lower fname) ''.txt'' then Txt
         else if py_endswith (py_lower fname) ''.xls'' \<or> py_endswith (py_lower fname) ''.xlsx''
         then Excel else Txt)
      else Txt)"

section \<open>Text parser\<close>

definition dquote :: char where
  "dquote = CHR 0x22"

definition is_transaction_line :: "string \<Rightarrow> bool" where
  "is_transaction_line line =
     (let fields = map (py_strip_chars [dquote]) (py_split (CHR '';'') line)
      in if 6 \<le> length fields then py_strptime (fields ! 0) DMY_slash \<noteq> None else False)"

definition parse_txt_transaction :: "string \<Rightarrow> env \<Rightarrow> env" where
  \<comment> \<open>an exception on the line is logged and the line is dropped\<close>
  "parse_txt_transaction line s =
     (let fields = map (\<lambda>f. py_strip (py_strip_chars [dquote] f)) (py_split (CHR '';'') line)
      in if 6 \<le> length fields then
           (let date_str = fields ! 0;
                descr = fields ! 2;
                amount_str = py_remove (CHR '','') (fields ! 3);
                op = fields ! 5
            in case py_strptime date_str DMY_slash of
                 None \<Rightarrow> s
               | Some tdate \<Rightarrow>
                   (let amt = (case py_float amount_str of Some a \<Rightarrow> a | None \<Rightarrow> 0);
                        op' = (if bank_type (imp s) = BCP \<and> op \<noteq> [] \<and> 6 \<le> length op
                               then py_last6 op else op)
                    in create_line
                         \<lparr>line_id = 0, line_import_id = imp_id (imp s),
                          transaction_date = tdate, description = descr,
                          amount = amt, operation_number = op', original_line = line\<rparr> s))
         else s)"

definition process_txt_file :: "env \<Rightarrow> error option \<times> env" where
  "process_txt_file s =
     (case file_data (imp s) of
        Some (Bytes b) \<Rightarrow>
          (case utf8_text b of
             None \<Rightarrow> (Some Txt_error, s)
           | Some file_content \<Rightarrow>
               (let transaction_lines =
                      filter (\<lambda>line. py_strip line \<noteq> [] \<and> prefix [dquote] line \<and>
                                      is_transaction_line line)
                        (py_split (CHR 0x0A) file_content)
                in (None, fold parse_txt_transaction transaction_lines s)))
      | _ \<Rightarrow> (Some Txt_error, s))"

section \<open>Spreadsheet parser\<close>

datatype parser_type = Openpyxl | Xlrd

fun truthy :: "cell \<Rightarrow> bool" where
  \<comment> \<open>the truth value Python gives a cell value\<close>
  "truthy CNone = False"
| "truthy (CStr t) = (t \<noteq> [])"
| "truthy (CInt i) = (i \<noteq> 0)"
| "truthy (CDateTime d) = True"

definition iso_date :: "date \<Rightarrow> string" where
  "iso_date d = zero_pad 4 (d_year d) @ ''-'' @ zero_pad 2 (d_month d) @ ''-'' @ zero_pad 2 (d_day d)"

fun py_str :: "cell \<Rightarrow> string" where
  \<comment> \<open>\<open>str(v)\<close>; a date-time cell is one at midnight\<close>
  "py_str CNone = ''None''"
| "py_str (CStr t) = t"
| "py_str (CInt i) = py_str_int i"
| "py_str (CDateTime d) = iso_date d @ '' 00:00:00''"

definition row_text :: "row \<Rightarrow> string" where
  \<comment> \<open>stands for \<open>str(row)\<close>, kept for audit only: the values between brackets (Python
      prints the representation of each value, or names the cell objects)\<close>
  "row_text r = ''['' @ py_join '', '' (map py_str r) @ '']''"

record col_mapping =
  cm_date :: "nat option"
  cm_description :: "nat option"
  cm_cargo :: "nat option"
  cm_abono :: "nat option"
  cm_operation :: "nat option"

definition empty_mapping :: col_mapping where
  "empty_mapping =
     \<lparr>cm_date = None, cm_description = None, cm_cargo = None, cm_abono = None,
      cm_operation = None\<rparr>"

definition any_in :: "string list \<Rightarrow> string \<Rightarrow> bool" where
  \<comment> \<open>\<open>any(word in h for word in ws)\<close>\<close>
  "any_in ws h = list_ex (\<lambda>w. py_in w h) ws"

definition map_header :: "nat \<times> string \<Rightarrow> col_mapping \<Rightarrow> col_mapping" where
  "map_header ih m =
     (let i = fst ih; header_lower = py_strip (py_lower (snd ih))
      in if any_in [''fecha'', ''date'', ''dia''] header_lower then m\<lparr>cm_date := Some i\<rparr>
         else if any_in [''descripcion'', ''concepto'', ''detalle'', ''description'', ''memo'',
                         ''glosa'', ''trans''] header_lower
         then m\<lparr>cm_description := Some i\<rparr>
         else if any_in [''cargo'', ''debe'', ''debito''] header_lower then m\<lparr>cm_cargo := Some i\<rparr>
         else if any_in [''abono'', ''haber'', ''credito''] header_lower then m\<lparr>cm_abono := Some i\<rparr>
         else if any_in [''documento'', ''nro'', ''numero'', ''referencia'', ''reference'',
                         ''operation''] header_lower
         then m\<lparr>cm_operation := Some i\<rparr>
         else m)"

definition get_excel_column_mapping :: "string list \<Rightarrow> col_mapping" where
  "get_excel_column_mapping headers = fold map_header (enumerate 0 headers) empty_mapping"

fun try_formats :: "string \<Rightarrow> date_format list \<Rightarrow> date option" where
  \<comment> \<open>the first format that parses\<close>
  "try_formats t [] = None"
| "try_formats t (f # fs) =
     (case py_strptime t f of Some d \<Rightarrow> Some d | None \<Rightarrow> try_formats t fs)"

definition get_value :: "parser_type \<Rightarrow> row \<Rightarrow> nat \<Rightarrow> cell" where
  "get_value p r i =
     (case p of
        Openpyxl \<Rightarrow> if i < length r \<and> r ! i \<noteq> CNone then r ! i else CStr []
      | Xlrd \<Rightarrow> if i < length r then r ! i else CStr [])"

definition excel_date :: "parser_type \<Rightarrow> cell \<Rightarrow> date option" where
  "excel_date p v =
     (if truthy v then
        (case v of
           CDateTime d \<Rightarrow> Some d
         | CStr t \<Rightarrow> try_formats (py_strip t) [YMD_dot, DMY_slash, YMD_dash, DMY_dash, MDY_slash]
         | CInt i \<Rightarrow> if p = Xlrd then xldate_as_date i else None
         | CNone \<Rightarrow> None)
      else None)"

definition amount_text :: "cell \<Rightarrow> string" where
  \<comment> \<open>\<open>str(v).replace(',', '').replace('$', '').strip()\<close>\<close>
  "amount_text v = py_strip (py_remove (CHR ''$'') (py_remove (CHR '','') (py_str v)))"

definition cargo_amount :: "parser_type \<Rightarrow> col_mapping \<Rightarrow> row \<Rightarrow> rat" where
  \<comment> \<open>the amount after the debit step: minus the absolute debit, or still 0.0\<close>
  "cargo_amount p cm r =
     (case cm_cargo cm of
        None \<Rightarrow> 0
      | Some i \<Rightarrow>
          (let cargo_value = get_value p r i
           in if truthy cargo_value \<and> py_strip (py_str cargo_value) \<noteq> [] then
                (if amount_text cargo_value \<noteq> [] then
                   (case py_float (amount_text cargo_value) of
                      Some x \<Rightarrow> - \<bar>x\<bar>
                    | None \<Rightarrow> 0)
                 else 0)
              else 0))"

definition excel_amount :: "parser_type \<Rightarrow> col_mapping \<Rightarrow> row \<Rightarrow> rat" where
  \<comment> \<open>the credit step runs only while the amount is still 0.0\<close>
  "excel_amount p cm r =
     (let amt = cargo_amount p cm r
      in case cm_abono cm of
           None \<Rightarrow> amt
         | Some j \<Rightarrow>
             if amt = 0 then
               (let abono_value = get_value p r j
                in if truthy abono_value \<and> py_strip (py_str abono_value) \<noteq> [] then
                     (if amount_text abono_value \<noteq> [] then
                        (case py_float (amount_text abono_value) of
                           Some x \<Rightarrow> x
                         | None \<Rightarrow> amt)
                      else amt)
                   else amt)
             else amt)"

definition create_excel_import_line :: "row \<Rightarrow> col_mapping \<Rightarrow> parser_type \<Rightarrow> env \<Rightarrow> env" where
  "create_excel_import_line r cm p s =
     (let tdate = (case cm_date cm of
                     None \<Rightarrow> None
                   | Some i \<Rightarrow> excel_date p (get_value p r i));
          descr = (case cm_description cm of
                     None \<Rightarrow> []
                   | Some i \<Rightarrow> (let v = get_value p r i in if truthy v then py_str v else []));
          amt = excel_amount p cm r;
          op = (case cm_operation cm of
                  None \<Rightarrow> []
                | Some i \<Rightarrow> (let v = get_value p r i in if truthy v then py_str v else []))
      in if tdate \<noteq> None \<or> amt \<noteq> 0 \<or> op \<noteq> [] then
           create_line
             \<lparr>line_id = 0, line_import_id = imp_id (imp s),
              transaction_date = (case tdate of Some d \<Rightarrow> d | None \<Rightarrow> today (now s)),
              description = descr, amount = amt, operation_number = op,
              original_line = ''Excel row: '' @ row_text r\<rparr> s
         else s)"

definition excel_row :: "parser_type \<Rightarrow> col_mapping \<Rightarrow> row \<Rightarrow> env \<times> nat \<Rightarrow> env \<times> nat" where
  \<comment> \<open>one turn of the data loop: the store and \<open>lines_created\<close>\<close>
  "excel_row p cm r sn =
     (if list_ex truthy r then (create_excel_import_line r cm p (fst sn), Suc (snd sn)) else sn)"

subsection \<open>Banco Continental\<close>

definition parse_continental_date :: "date \<Rightarrow> string \<Rightarrow> date option" where
  \<comment> \<open>the first argument is the reading of \<open>datetime.now()\<close>. The inner option says whether
      the DD-MM branch returned (an exception in it returns \<open>None\<close>) or fell through to the
      other formats.\<close>
  "parse_continental_date nw date_str =
     (if date_str = [] \<or> py_strip date_str = [] then None
      else
        (let ds = py_strip date_str;
             dd_mm =
               (if CHR ''-'' \<in> set ds then
                  (case py_split (CHR ''-'') ds of
                     [day_str, month_str] \<Rightarrow>
                       (let dy = py_strip day_str; mo = py_strip month_str
                        in if py_isdigit dy \<and> py_isdigit mo then
                             (case (py_int dy, py_int mo) of
                                (Some day_int, Some month_int) \<Rightarrow>
                                  if 1 \<le> day_int \<and> day_int \<le> 31 \<and> 1 \<le> month_int \<and> month_int \<le> 12
                                  then Some (py_date
                                         (if d_month nw \<le> 2 \<and> 11 \<le> month_int
                                          then d_year nw - 1 else d_year nw)
                                         month_int day_int)
                                  else None
                              | _ \<Rightarrow> Some None)
                           else None)
                   | _ \<Rightarrow> None)
                else None)
         in case dd_mm of
              Some result \<Rightarrow> result
            | None \<Rightarrow> try_formats ds [DMY_slash, DMY_dash, YMD_dash]))"

definition parse_continental_amount :: "string \<Rightarrow> rat" where
  "parse_continental_amount amount_str =
     (if amount_str = [] then 0
      else (let clean_amount = py_strip (py_remove (CHR '' '') (py_remove (CHR '','') amount_str))
            in if clean_amount = [] then 0
               else (case py_float clean_amount of Some x \<Rightarrow> x | None \<Rightarrow> 0)))"

record cont_mapping =
  cc_fecha :: "nat option"
  cc_descripcion :: "nat option"
  cc_operacion :: "nat option"
  cc_monto :: "nat option"

definition cont_map_header :: "nat \<times> string \<Rightarrow> cont_mapping \<Rightarrow> cont_mapping" where
  \<comment> \<open>the second test of the description branch, for an encoding variant of the same
      word, holds only where the first does\<close>
  "cont_map_header ih m =
     (let i = fst ih; header_str = py_strip (py_upper (snd ih))
      in if py_in ''FECHA OPER'' header_str then m\<lparr>cc_fecha := Some i\<rparr>
         else if py_in ''DESCRIPCI'' header_str then m\<lparr>cc_descripcion := Some i\<rparr>
         else if py_in ''N OPER'' header_str then m\<lparr>cc_operacion := Some i\<rparr>
         else if py_in ''CARGO/ABONO'' header_str then m\<lparr>cc_monto := Some i\<rparr>
         else m)"

definition cont_cell :: "nat option \<Rightarrow> row \<Rightarrow> error + cell option" where
  \<comment> \<open>\<open>row[col_mapping[k]] if col_mapping.get(k) else None\<close>: a column mapped at index 0 is
      as false as one not mapped; an index past the row raises\<close>
  "cont_cell k r =
     (case k of
        None \<Rightarrow> Inr None
      | Some i \<Rightarrow> if i \<noteq> 0 then (if i < length r then Inr (Some (r ! i)) else Inl Index_error)
                  else Inr None)"

definition cell_text :: "string \<Rightarrow> cell option \<Rightarrow> string" where
  \<comment> \<open>\<open>str(c.value).strip() if c and c.value else dflt\<close>\<close>
  "cell_text dflt c =
     (case c of Some v \<Rightarrow> if truthy v then py_strip (py_str v) else dflt | None \<Rightarrow> dflt)"

definition saldo_anterior_skip :: "cont_mapping \<Rightarrow> row \<Rightarrow> error + bool" where
  \<comment> \<open>the opening-balance test at the head of the row loop: whether the row is skipped\<close>
  "saldo_anterior_skip cm r =
     (case cc_descripcion cm of
        None \<Rightarrow> Inr False
      | Some i \<Rightarrow>
          if i \<noteq> 0 then
            (if i < length r then
               Inr (py_in ''SALDO ANTERIOR''
                      (if truthy (r ! i) then py_upper (py_strip (py_str (r ! i))) else []))
             else Inl Index_error)
          else Inr False)"

definition continental_create :: "cont_mapping \<Rightarrow> row \<Rightarrow> env \<times> nat \<Rightarrow> env \<times> nat" where
  \<comment> \<open>the row loop after the opening-balance test; an exception drops the row\<close>
  "continental_create cm r sn =
     (case cont_cell (cc_fecha cm) r of
        Inl e \<Rightarrow> sn
      | Inr fecha_cell \<Rightarrow>
     (case cont_cell (cc_descripcion cm) r of
        Inl e \<Rightarrow> sn
      | Inr desc_cell \<Rightarrow>
     (case cont_cell (cc_monto cm) r of
        Inl e \<Rightarrow> sn
      | Inr monto_cell \<Rightarrow>
     (case cont_cell (cc_operacion cm) r of
        Inl e \<Rightarrow> sn
      | Inr op_cell \<Rightarrow>
          (let s = fst sn;
               fecha_str = cell_text [] fecha_cell;
               tdate = parse_continental_date (today (now s)) fecha_str;
               descr = cell_text [] desc_cell;
               monto_str = cell_text ''0'' monto_cell;
               amt = parse_continental_amount monto_str;
               op = cell_text [] op_cell
           in if (tdate \<noteq> None \<or> amt \<noteq> 0 \<or> op \<noteq> []) \<and> descr \<noteq> [] then
                (create_line
                   \<lparr>line_id = 0, line_import_id = imp_id (imp s),
                    transaction_date = (case tdate of Some d \<Rightarrow> d | None \<Rightarrow> today (now s)),
                    description = descr, amount = amt, operation_number = op,
                    original_line = ''Continental: '' @ fecha_str @ '' | '' @ descr @ '' | '' @
                                    monto_str @ '' | '' @ op\<rparr> s,
                 Suc (snd sn))
              else sn)))))"

definition continental_row :: "cont_mapping \<Rightarrow> row \<Rightarrow> env \<times> nat \<Rightarrow> env \<times> nat" where
  "continental_row cm r sn =
     (if list_ex truthy r then
        (case saldo_anterior_skip cm r of
           Inl e \<Rightarrow> sn
         | Inr skip \<Rightarrow> if skip then sn else continental_create cm r sn)
      else sn)"

definition continental_header_row :: "row \<Rightarrow> bool" where
  "continental_header_row r =
     (let row_str = py_upper (py_join '' '' (map py_str (filter truthy r)))
      in py_in ''FECHA OPER'' row_str \<and> py_in ''CARGO'' row_str)"

definition parse_continental_excel_openpyxl :: "row list \<Rightarrow> env \<Rightarrow> error option \<times> env" where
  \<comment> \<open>rows are numbered from 1 and \<open>max_row\<close> is the number of rows; the data rows
      \<open>header_row + 1 .. max_row\<close> are \<open>drop header_row sheet\<close>\<close>
  "parse_continental_excel_openpyxl sheet s =
     (case find (\<lambda>row_num. continental_header_row (sheet ! (row_num - 1)))
             [1 ..< min 5 (length sheet + 1)] of
        None \<Rightarrow> (Some Continental_format, s)
      | Some header_row \<Rightarrow>
          (let headers = map (\<lambda>c. if truthy c then py_str c else []) (sheet ! (header_row - 1));
               cm = fold cont_map_header (enumerate 0 headers)
                      \<lparr>cc_fecha = None, cc_descripcion = None, cc_operacion = None,
                       cc_monto = None\<rparr>
           in if cc_fecha cm = None \<or> cc_monto cm = None then (Some Continental_columns, s)
              else (let sn = fold (continental_row cm) (drop header_row sheet) (s, 0)
                    in if snd sn = 0 then (Some Continental_no_rows, fst sn)
                       else (None, fst sn))))"

subsection \<open>Other banks\<close>

definition parse_excel_openpyxl :: "row list \<Rightarrow> env \<Rightarrow> error option \<times> env" where
  "parse_excel_openpyxl sheet s =
     (if bank_type (imp s) = Continental then parse_continental_excel_openpyxl sheet s
      else
        (case find (\<lambda>row_num.
                      list_ex (\<lambda>c. py_in ''fecha'' (if truthy c then py_lower (py_str c) else []))
                        (sheet ! (row_num - 1)))
                [1 ..< min 10 (length sheet + 1)] of
           None \<Rightarrow> (Some Header_not_found, s)
         | Some header_row \<Rightarrow>
             (let headers = map (\<lambda>c. if truthy c then py_strip (py_lower (py_str c)) else [])
                              (sheet ! (header_row - 1));
                  cm = get_excel_column_mapping headers
              in if cm = empty_mapping then (Some Columns_not_mapped, s)
                 else (let sn = fold (excel_row Openpyxl cm) (drop header_row sheet) (s, 0)
                       in if snd sn = 0 then (Some No_rows_extracted, fst sn)
                          else (None, fst sn)))))"

definition parse_excel_xlrd :: "row list \<Rightarrow> env \<Rightarrow> error option \<times> env" where
  \<comment> \<open>rows are numbered from 0 and \<open>nrows\<close> is the number of rows. The module defines no
      \<open>_parse_continental_excel_xlrd\<close>: the call raises AttributeError.\<close>
  "parse_excel_xlrd sheet s =
     (if bank_type (imp s) = Continental then (Some Attribute_error, s)
      else
        (case find (\<lambda>row_num.
                      list_ex (\<lambda>c. py_in ''fecha'' (py_lower (py_str c))) (sheet ! row_num))
                [0 ..< min 10 (length sheet)] of
           None \<Rightarrow> (Some Header_not_found, s)
         | Some header_row \<Rightarrow>
             (let headers = map (\<lambda>c. py_strip (py_lower (py_str c))) (sheet ! header_row);
                  cm = get_excel_column_mapping headers
              in if cm = empty_mapping then (Some Columns_not_mapped, s)
                 else (let sn = fold (excel_row Xlrd cm) (drop (header_row + 1) sheet) (s, 0)
                       in if snd sn = 0 then (Some No_rows_extracted, fst sn)
                          else (None, fst sn)))))"

subsection \<open>Choosing the reader\<close>

definition openpyxl_attempt :: "file_bytes \<Rightarrow> env \<Rightarrow> error option \<times> env" where
  "openpyxl_attempt b s =
     (case openpyxl_load b of
        Inl msg \<Rightarrow> (Some (Library_error msg), s)
      | Inr sheet \<Rightarrow> if length sheet < 2 then (Some Excel_empty, s)
                     else parse_excel_openpyxl sheet s)"

definition xlrd_sheet :: "bank_type \<Rightarrow> (string \<times> row list) list \<Rightarrow> row list option" where
  \<comment> \<open>for Continental the first sheet whose name contains Sheet6, else the first sheet;
      \<open>None\<close> is the IndexError of a workbook without sheets\<close>
  "xlrd_sheet bt sheets =
     (case (if bt = Continental then find (\<lambda>ns. py_in ''Sheet6'' (fst ns)) sheets else None) of
        Some ns \<Rightarrow> Some (snd ns)
      | None \<Rightarrow> (case sheets of [] \<Rightarrow> None | ns # _ \<Rightarrow> Some (snd ns)))"

definition xlrd_attempt :: "file_bytes \<Rightarrow> env \<Rightarrow> error option \<times> env" where
  "xlrd_attempt b s =
     (case xlrd_open b of
        Inl msg \<Rightarrow> (Some (Library_error msg), s)
      | Inr sheets \<Rightarrow>
          (case xlrd_sheet (bank_type (imp s)) sheets of
             None \<Rightarrow> (Some Index_error, s)
           | Some sheet \<Rightarrow> if length sheet < 2 then (Some Excel_empty, s)
                           else parse_excel_xlrd sheet s))"

definition mentions_zip_or_invalid :: "error \<Rightarrow> bool" where
  \<comment> \<open>whether the text of the exception contains "not a zip file" or "invalid" once
      lower-cased; none of the module's own messages does\<close>
  "mentions_zip_or_invalid e =
     (case e of
        Library_error msg \<Rightarrow> py_in ''not a zip file'' (py_lower msg) \<or> py_in ''invalid'' (py_lower msg)
      | _ \<Rightarrow> False)"

definition xlrd_stage :: "file_bytes \<Rightarrow> env \<Rightarrow> error option \<times> env" where
  \<comment> \<open>the module from \<open>if not success and xlrd_available\<close> on, with \<open>success\<close> false\<close>
  "xlrd_stage b s =
     (if xlrd_available s then
        (case xlrd_attempt b s of
           (None, s') \<Rightarrow> (None, s')
         | (Some e, s') \<Rightarrow> (Some Excel_failed, s'))
      else (Some Excel_failed, s))"

definition process_excel_file :: "env \<Rightarrow> error option \<times> env" where
  "process_excel_file s =
     (case file_data (imp s) of
        Some (Bytes b) \<Rightarrow>
          if \<not> openpyxl_available s \<and> \<not> xlrd_available s then (Some No_excel_library, s)
          else if openpyxl_available s then
            (case openpyxl_attempt b s of
               (None, s') \<Rightarrow> (None, s')
             | (Some e, s') \<Rightarrow>
                 if mentions_zip_or_invalid e then xlrd_stage b s'
                 else if \<not> xlrd_available s' then (Some Excel_corrupt, s')
                 else xlrd_stage b s')
          else xlrd_stage b s
      | _ \<Rightarrow> (Some Excel_unexpected, s))"

section \<open>Processing an Import\<close>

definition import_name :: "bank_type \<Rightarrow> clock \<Rightarrow> string" where
  "import_name bt c =
     ''Importaci'' @ [CHR 0xF3] @ ''n '' @ py_upper (bank_type_key bt) @ '' - '' @
     zero_pad 2 (d_day (today c)) @ ''/'' @ zero_pad 2 (d_month (today c)) @ ''/'' @
     zero_pad 4 (d_year (today c)) @ '' '' @ zero_pad 2 (hour c) @ '':'' @ zero_pad 2 (minute c)"

definition action_process_file :: "env \<Rightarrow> error option \<times> env" where
  "action_process_file s =
     (case file_data (imp s) of
        None \<Rightarrow> (Some No_file, s)
      | Some _ \<Rightarrow>
          (case (case compute_file_type (file_name (imp s)) of
                   Txt \<Rightarrow> process_txt_file (unlink_lines s)
                 | Excel \<Rightarrow> process_excel_file (unlink_lines s)) of
             (Some e, s') \<Rightarrow> (Some e, s')
           | (None, s') \<Rightarrow>
               if length (self_lines s') = 0 then (Some No_data_extracted, s')
               else (None, s'\<lparr>imp := (imp s')\<lparr>imp_state := Processed,
                                               imp_name := import_name (bank_type (imp s')) (now s')\<rparr>\<rparr>)))"

section \<open>Match engine\<close>

definition active_payments :: "env \<Rightarrow> account_payment list" where
  \<comment> \<open>the search domain \<open>state in ['posted', 'sent', 'in_process']\<close>\<close>
  "active_payments s =
     filter (\<lambda>p. pay_state p \<in> set [''posted'', ''sent'', ''in_process'']) (payment_tbl s)"

definition amount_matches :: "bank_import_line \<Rightarrow> env \<Rightarrow> account_payment list" where
  \<comment> \<open>the exact amount first, the window of one cent when nothing has it\<close>
  "amount_matches l s =
     (let exact = filter (\<lambda>p. pay_amount p = \<bar>amount l\<bar>) (active_payments s)
      in if exact = [] then
           filter (\<lambda>p. \<bar>amount l\<bar> - 1 / 100 \<le> pay_amount p \<and> pay_amount p \<le> \<bar>amount l\<bar> + 1 / 100)
             (active_payments s)
         else exact)"

definition create_match :: "bank_import_match \<Rightarrow> env \<Rightarrow> error + env" where
  \<comment> \<open>\<open>BankImportMatch.create\<close>: a link that reads as false (identifier 0) is refused\<close>
  "create_match vals s =
     (if import_line_id vals = 0 then Inl Field_required
      else if payment_id vals = 0 then Inl Field_required
      else if match_import_id vals = 0 then Inl Field_required
      else Inr (s\<lparr>match_tbl := match_tbl s @ [vals\<lparr>match_id := next_match_id s\<rparr>],
                  next_match_id := Suc (next_match_id s)\<rparr>))"

definition existing_match :: "env \<Rightarrow> nat \<Rightarrow> nat \<Rightarrow> bank_import_match list" where
  "existing_match s pid lid =
     filter (\<lambda>m. match_import_id m = imp_id (imp s) \<and> payment_id m = pid \<and> import_line_id m = lid)
       (match_tbl s)"

definition attr_text :: "string option \<Rightarrow> string list" where
  \<comment> \<open>a field appended only when the attribute exists and is not empty\<close>
  "attr_text a = (case a of Some t \<Rightarrow> if t \<noteq> [] then [t] else [] | None \<Rightarrow> [])"

definition field_hit :: "string \<Rightarrow> string \<Rightarrow> string \<Rightarrow> bool" where
  \<comment> \<open>the four tests of the operation-matching rule on one field\<close>
  "field_hit op clean_operation field_value =
     (if field_value \<noteq> [] then
        (let field_str = py_strip field_value;
             clean_field = (if py_lstrip_chars ''0'' field_str = [] then ''0''
                            else py_lstrip_chars ''0'' field_str)
         in py_in op field_str
            \<or> (clean_operation \<noteq> ''0'' \<and> py_in clean_operation field_str)
            \<or> clean_operation = clean_field
            \<or> (6 \<le> length field_str \<and>
                 (op = py_last6 field_str
                  \<or> clean_operation = py_lstrip_chars ''0'' (py_last6 field_str))))
      else False)"

definition check_operation_match :: "account_payment \<Rightarrow> string \<Rightarrow> bool" where
  "check_operation_match p op =
     (if op = [] then True
      else (let clean_operation = (if py_lstrip_chars ''0'' (py_strip op) = [] then ''0''
                                   else py_lstrip_chars ''0'' (py_strip op));
                fields_to_check = [pay_name p, pay_memo p] @ attr_text (communication p) @
                                  attr_text (payment_reference p)
            in list_ex (field_hit op clean_operation) fields_to_check))"

fun match_by_amount ::
  "bank_import_line \<Rightarrow> account_payment list \<Rightarrow> nat \<Rightarrow> env \<Rightarrow> (error + nat) \<times> env" where
  \<comment> \<open>the loop over the amount-matched pool; the number is \<open>matches_created\<close>\<close>
  "match_by_amount l [] n s = (Inr n, s)"
| "match_by_amount l (p # ps) n s =
     (let operation_match = check_operation_match p (operation_number l)
      in if operation_match \<or> operation_number l = [] then
           (if existing_match s (pay_id p) (line_id l) = [] then
              (case create_match
                      \<lparr>match_id = 0, match_import_id = imp_id (imp s),
                       import_line_id = line_id l, payment_id = pay_id p,
                       match_type = (if operation_match then Exact else Partial)\<rparr> s of
                 Inl e \<Rightarrow> (Inl Match_create_error, s)
               | Inr s' \<Rightarrow> match_by_amount l ps (Suc n) s')
            else match_by_amount l ps n s)
         else match_by_amount l ps n s)"

fun match_by_operation ::
  "bank_import_line \<Rightarrow> account_payment list \<Rightarrow> nat \<Rightarrow> env \<Rightarrow> nat \<times> env" where
  \<comment> \<open>the loop over all active payments; a failed creation is logged and passed over\<close>
  "match_by_operation l [] n s = (n, s)"
| "match_by_operation l (p # ps) n s =
     (if check_operation_match p (operation_number l) then
        (if existing_match s (pay_id p) (line_id l) = [] then
           (case create_match
                   \<lparr>match_id = 0, match_import_id = imp_id (imp s),
                    import_line_id = line_id l, payment_id = pay_id p,
                    match_type = Partial\<rparr> s of
              Inl e \<Rightarrow> match_by_operation l ps n s
            | Inr s' \<Rightarrow> match_by_operation l ps (Suc n) s')
         else match_by_operation l ps n s)
      else match_by_operation l ps n s)"

definition find_matching_payments :: "bank_import_line \<Rightarrow> env \<Rightarrow> (error + nat) \<times> env" where
  "find_matching_payments l s =
     (case match_by_amount l (amount_matches l s) 0 s of
        (Inl e, s') \<Rightarrow> (Inl e, s')
      | (Inr matches_created, s') \<Rightarrow>
          if matches_created = 0 \<and> operation_number l \<noteq> [] then
            (case match_by_operation l (active_payments s') matches_created s' of
               (n, s'') \<Rightarrow> (Inr n, s''))
          else (Inr matches_created, s'))"

fun match_lines :: "bank_import_line list \<Rightarrow> nat \<Rightarrow> env \<Rightarrow> (error + nat) \<times> env" where
  \<comment> \<open>the loop of \<open>action_match_payments\<close>; the number is the running total\<close>
  "match_lines [] total_matches s = (Inr total_matches, s)"
| "match_lines (l # ls) total_matches s =
     (case find_matching_payments l s of
        (Inl e, s') \<Rightarrow> (Inl Line_error, s')
      | (Inr matches_count, s') \<Rightarrow> match_lines ls (total_matches + matches_count) s')"

definition action_match_payments :: "env \<Rightarrow> error option \<times> env" where
  "action_match_payments s =
     (if self_lines s = [] then (Some Process_first, s)
      else (case match_lines (self_lines s) 0 (unlink_matches s) of
              (Inl e, s') \<Rightarrow> (Some e, s')
            | (Inr total_matches, s') \<Rightarrow> (None, s'\<lparr>imp := (imp s')\<lparr>imp_state := Matched\<rparr>\<rparr>)))"

section \<open>Advanced match wizard\<close>

record bank_import_wizard =
  date_from :: "date option"
  date_to :: "date option"
  amount_tolerance :: rat
  search_in_communication :: bool
  search_in_reference :: bool
  search_in_narration :: bool

definition amounts_match :: "bank_import_wizard \<Rightarrow> rat \<Rightarrow> rat \<Rightarrow> bool" where
  "amounts_match w import_amount payment_amount =
     (if amount_tolerance w = 0 then \<bar>import_amount\<bar> = payment_amount
      else \<bar>\<bar>import_amount\<bar> - payment_amount\<bar> \<le> \<bar>import_amount\<bar> * (amount_tolerance w / 100))"

definition operation_number_matches ::
  "bank_import_wizard \<Rightarrow> string \<Rightarrow> account_payment \<Rightarrow> error + bool" where
  \<comment> \<open>\<open>payment.communication\<close> is read without asking whether the attribute exists\<close>
  "operation_number_matches w op p =
     (if search_in_communication w \<and> communication p = None then Inl Attribute_error
      else
        (let fields_to_check =
               (if search_in_reference w \<and> pay_name p \<noteq> [] then [pay_name p] else []) @
               (if search_in_communication w then attr_text (communication p) else []) @
               (if search_in_narration w
                then (if pay_memo p \<noteq> [] then [pay_memo p] else []) @ attr_text (narration p)
                else [])
         in Inr (list_ex (\<lambda>field_value. py_in op field_value) fields_to_check)))"

definition calculate_match_score ::
  "bank_import_wizard \<Rightarrow> bank_import_line \<Rightarrow> account_payment \<Rightarrow> error + nat" where
  "calculate_match_score w l p =
     (let score = (if amounts_match w (amount l) (pay_amount p) then 50 else 0)
      in if operation_number l \<noteq> [] then
           (case operation_number_matches w (operation_number l) p of
              Inl e \<Rightarrow> Inl e
            | Inr hit \<Rightarrow> Inr (if hit then score + 50 else score))
         else Inr score)"

fun find_advanced_matches ::
  "bank_import_wizard \<Rightarrow> bank_import_line \<Rightarrow> account_payment list \<Rightarrow> account_payment list \<Rightarrow>
   env \<Rightarrow> (error + account_payment list) \<times> env" where
  \<comment> \<open>the fourth argument is \<open>matched_payments\<close> so far\<close>
  "find_advanced_matches w l [] matched s = (Inr matched, s)"
| "find_advanced_matches w l (p # ps) matched s =
     (case calculate_match_score w l p of
        Inl e \<Rightarrow> (Inl e, s)
      | Inr match_score \<Rightarrow>
          if 0 < match_score then
            (case create_match
                    \<lparr>match_id = 0, match_import_id = imp_id (imp s),
                     import_line_id = line_id l, payment_id = pay_id p,
                     match_type = (if 100 \<le> match_score then Exact else Partial)\<rparr> s of
               Inl e \<Rightarrow> (Inl e, s)
             | Inr s' \<Rightarrow> find_advanced_matches w l ps (matched @ [p]) s')
          else find_advanced_matches w l ps matched s)"

fun advanced_lines ::
  "bank_import_wizard \<Rightarrow> account_payment list \<Rightarrow> bank_import_line list \<Rightarrow> nat \<Rightarrow> env \<Rightarrow>
   (error + nat) \<times> env" where
  \<comment> \<open>the loop of \<open>action_advanced_match\<close>; the number is \<open>matches_found\<close>\<close>
  "advanced_lines w pays [] found s = (Inr found, s)"
| "advanced_lines w pays (l # ls) found s =
     (case find_advanced_matches w l pays [] s of
        (Inl e, s') \<Rightarrow> (Inl e, s')
      | (Inr matched, s') \<Rightarrow> advanced_lines w pays ls (found + length matched) s')"

definition wizard_payments :: "bank_import_wizard \<Rightarrow> env \<Rightarrow> account_payment list" where
  \<comment> \<open>the search domain: posted or sent, within the optional date range\<close>
  "wizard_payments w s =
     filter (\<lambda>p. pay_state p \<in> set [''posted'', ''sent'']
                 \<and> (case date_from w of Some d \<Rightarrow> date_le d (pay_date p) | None \<Rightarrow> True)
                 \<and> (case date_to w of Some d \<Rightarrow> date_le (pay_date p) d | None \<Rightarrow> True))
       (payment_tbl s)"

definition action_advanced_match :: "bank_import_wizard \<Rightarrow> env \<Rightarrow> error option \<times> env" where
  "action_advanced_match w s =
     (case advanced_lines w (wizard_payments w (unlink_matches s)) (self_lines (unlink_matches s)) 0
             (unlink_matches s) of
        (Inl e, s') \<Rightarrow> (Some e, s')
      | (Inr matches_found, s') \<Rightarrow>
          if 0 < matches_found then (None, s'\<lparr>imp := (imp s')\<lparr>imp_state := Matched\<rparr>\<rparr>)
          else (None, s'))"

section \<open>Notions the properties are stated with\<close>

definition match_pairs :: "env \<Rightarrow> (nat \<times> nat) list" where
  \<comment> \<open>the (transaction line, payment) pair of every Match record of the Import\<close>
  "match_pairs s = map (\<lambda>m. (import_line_id m, payment_id m)) (self_matches s)"

definition line_vals :: "bank_import_line \<Rightarrow> bank_import_line" where
  \<comment> \<open>a transaction without its opaque identifier\<close>
  "line_vals l = l\<lparr>line_id := 0\<rparr>"

definition transaction_set :: "env \<Rightarrow> bank_import_line list" where
  \<comment> \<open>the transactions of the Import in order, identifiers ignored\<close>
  "transaction_set s = map line_vals (self_lines s)"

definition inputs :: "env \<Rightarrow> nat \<times> payload option \<times> string \<times> bank_type \<times> bool \<times> bool" where
  \<comment> \<open>what \<open>process\<close> reads besides the clock: the Import's identity, file, file name and
      bank, and the spreadsheet libraries installed\<close>
  "inputs s = (imp_id (imp s), file_data (imp s), file_name (imp s), bank_type (imp s),
               openpyxl_available s, xlrd_available s)"

definition sim :: "env \<Rightarrow> env \<Rightarrow> bool" where
  \<comment> \<open>two stores with the same inputs and the same transactions of the Import\<close>
  "sim s t = (inputs s = inputs t \<and> transaction_set s = transaction_set t)"

definition simd :: "env \<Rightarrow> env \<Rightarrow> bool" where
  \<comment> \<open>the same, and the clocks read the same date\<close>
  "simd s t = (sim s t \<and> today (now s) = today (now t))"

definition simd2 :: "env \<times> nat \<Rightarrow> env \<times> nat \<Rightarrow> bool" where
  "simd2 a b = (simd (fst a) (fst b) \<and> snd a = snd b)"

definition rsim :: "error option \<times> env \<Rightarrow> error option \<times> env \<Rightarrow> bool" where
  \<comment> \<open>two outcomes: the same error or none, and the same transactions\<close>
  "rsim a b = (fst a = fst b \<and> sim (snd a) (snd b))"

definition rsimd :: "error option \<times> env \<Rightarrow> error option \<times> env \<Rightarrow> bool" where
  "rsimd a b = (fst a = fst b \<and> simd (snd a) (snd b))"

definition readonly :: "env \<Rightarrow> (nat \<times> payload option \<times> string \<times> bank_type \<times> bool \<times> bool) \<times> clock" where
  "readonly s = (inputs s, now s)"

section \<open>Concrete inputs\<close>

definition ex_clock :: clock where
  "ex_clock = \<lparr>today = \<lparr>d_year = 2025, d_month = 1, d_day = 10\<rparr>, hour = 9, minute = 5\<rparr>"

definition ex_txt_line :: string where
  \<comment> \<open>a BCP text line: date, a filler, description, amount, a filler, operation number\<close>
  "ex_txt_line = [dquote] @ ''15/01/2024'' @ [dquote] @ '';x;'' @ [dquote] @ ''PAGO'' @ [dquote] @
                 '';1,234.50;y;'' @ [dquote] @ ''000123456789'' @ [dquote]"

definition ex_bytes :: file_bytes where
  "ex_bytes = \<lparr>utf8_text = Some ex_txt_line, openpyxl_load = Inl ''File is not a zip file'',
               xlrd_open = Inl ''Unsupported format''\<rparr>"

definition ex_import :: bank_import where
  "ex_import = \<lparr>imp_id = 1, imp_name = ''Nueva'', file_data = Some (Bytes ex_bytes),
                file_name = ''movimientos.txt'', bank_type = BCP, imp_state = Draft\<rparr>"

definition ex_line :: bank_import_line where
  \<comment> \<open>a transaction of 100.00 without operation number\<close>
  "ex_line = \<lparr>line_id = 3, line_import_id = 1,
              transaction_date = \<lparr>d_year = 2024, d_month = 12, d_day = 30\<rparr>,
              description = ''ABONO'', amount = 100, operation_number = [], original_line = []\<rparr>"

definition ex_payment :: account_payment where
  "ex_payment = \<lparr>pay_id = 7, pay_state = ''posted'', pay_amount = 100,
                 pay_date = \<lparr>d_year = 2024, d_month = 12, d_day = 30\<rparr>,
                 pay_name = ''PAY/001'', pay_memo = ''Factura 12'', communication = None,
                 payment_reference = Some [], narration = None\<rparr>"

definition ex_env :: env where
  "ex_env = \<lparr>imp = ex_import, line_tbl = [ex_line], match_tbl = [], payment_tbl = [ex_payment],
             next_line_id = 4, next_match_id = 1, now = ex_clock,
             openpyxl_available = True, xlrd_available = True\<rparr>"

definition ex_match :: bank_import_match where
  "ex_match = \<lparr>match_id = 1, match_import_id = 1, import_line_id = 3, payment_id = 7,
               match_type = Exact\<rparr>"

definition ex_unprocessed :: env where
  \<comment> \<open>the Import without transaction lines, a Match record still in the store\<close>
  "ex_unprocessed = ex_env\<lparr>line_tbl := [], match_tbl := [ex_match], next_match_id := 2\<rparr>"

definition ex_undecodable :: env where
  \<comment> \<open>the Import with one transaction from an earlier run and a file that is not UTF-8\<close>
  "ex_undecodable = ex_env\<lparr>imp := ex_import\<lparr>file_data := Some (Bytes (ex_bytes\<lparr>utf8_text := None\<rparr>))\<rparr>\<rparr>"

definition ex_no_file :: env where
  "ex_no_file = ex_env\<lparr>imp := ex_import\<lparr>file_data := None\<rparr>\<rparr>"

definition ex_no_backend :: env where
  "ex_no_backend =
     ex_env\<lparr>imp := ex_import\<lparr>file_name := ''movimientos.xlsx''\<rparr>,
            openpyxl_available := False, xlrd_available := False\<rparr>"

definition ex_header :: row where
  "ex_header = [CStr ''Fecha'', CStr ''Descripcion'', CStr ''Cargo'', CStr ''Abono'',
                CStr ''Nro Operacion'']"

definition ex_sheet :: "row list" where
  \<comment> \<open>nine title rows, the header in the tenth row, one data row\<close>
  "ex_sheet = replicate 9 [CStr ''Banco de la Nacion''] @
              [ex_header,
               [CStr ''15/01/2024'', CStr ''DEPOSITO'', CNone, CStr ''250.00'', CStr ''778899'']]"

definition ex_nacion :: env where
  "ex_nacion = ex_env\<lparr>imp := ex_import\<lparr>bank_type := Nacion, file_name := ''movimientos.xlsx''\<rparr>,
                     line_tbl := []\<rparr>"

definition ex_credit_row :: row where
  \<comment> \<open>a data row under \<open>ex_header\<close>: no debit, a credit of -50.00\<close>
  "ex_credit_row = [CStr ''15/01/2024'', CStr ''EXTORNO'', CNone, CStr ''-50.00'', CStr ''778899'']"

definition ex_cont_mapping :: cont_mapping where
  "ex_cont_mapping = \<lparr>cc_fecha = Some 1, cc_descripcion = Some 2, cc_operacion = Some 3,
                      cc_monto = Some 4\<rparr>"

definition ex_cont_row :: row where
  \<comment> \<open>a Continental data row whose description is not the marker itself\<close>
  "ex_cont_row = [CNone, CStr ''10-01'', CStr ''Pago saldo anterior'', CStr ''4455'', CStr ''120.00'']"

definition ex_wizard :: bank_import_wizard where
  "ex_wizard = \<lparr>date_from = None, date_to = None, amount_tolerance = 0,
                search_in_communication = False, search_in_reference = True,
                search_in_narration = True\<rparr>"

definition ex_undated_sheet :: "row list" where
  \<comment> \<open>the header and a data row without a date\<close>
  "ex_undated_sheet = [ex_header, [CNone, CStr ''COMISION'', CStr ''12.50'', CNone, CStr ''9911'']]"

definition ex_xlsx :: env where
  "ex_xlsx = ex_nacion\<lparr>imp := (imp ex_nacion)
               \<lparr>file_data := Some (Bytes (ex_bytes\<lparr>openpyxl_load := Inr ex_undated_sheet\<rparr>))\<rparr>\<rparr>"

definition ex_next_day :: clock where
  "ex_next_day = \<lparr>today = \<lparr>d_year = 2025, d_month = 1, d_day = 11\<rparr>, hour = 8, minute = 30\<rparr>"

definition ex_marker_row :: row where
  "ex_marker_row = [CNone, CStr ''10-01'', CStr ''SALDO ANTERIOR'', CNone, CStr ''5,000.00'']"

section \<open>Properties\<close>

subsection \<open>Matching an Import that has no transaction lines\<close>

text \<open>
  C10. \<open>action_match_payments\<close> on an Import with zero transaction lines raises the user
  error of the guard and returns the store as it was: no Match record is deleted and the
  state of the Import is not changed, because the clearing comes after the guard.
\<close>

theorem match_without_lines_raises:
  "self_lines s = [] \<Longrightarrow> action_match_payments s = (Some Process_first, s)"
  by (simp add: action_match_payments_def)

theorem match_without_lines_raises_witness:
  "self_lines ex_unprocessed = [] \<and> match_tbl ex_unprocessed = [ex_match] \<and>
   action_match_payments ex_unprocessed = (Some Process_first, ex_unprocessed)"
proof -
  have h: "self_lines ex_unprocessed = []"
    by (simp add: self_lines_def ex_unprocessed_def)
  have m: "match_tbl ex_unprocessed = [ex_match]"
    by (simp add: ex_unprocessed_def)
  show ?thesis
    using h m match_without_lines_raises [OF h] by simp
qed

subsection \<open>The BCP operation number\<close>

text \<open>
  C9. With bank profile \<open>bcp\<close>, a text line that is parsed (six fields or more, the first a
  DD/MM/YYYY date) stores one transaction whose operation number is the last six
  characters of the extracted sixth field when that field has six characters or more,
  and the field itself when it is shorter.
\<close>

theorem bcp_operation_number_last_six:
  assumes "bank_type (imp s) = BCP"
    and "fs = map (\<lambda>f. py_strip (py_strip_chars [dquote] f)) (py_split (CHR '';'') line)"
    and "6 \<le> length fs"
    and "py_strptime (fs ! 0) DMY_slash = Some d"
  shows "map operation_number (line_tbl (parse_txt_transaction line s)) =
         map operation_number (line_tbl s) @
           [if 6 \<le> length (fs ! 5) then drop (length (fs ! 5) - 6) (fs ! 5) else fs ! 5]"
proof -
  have "parse_txt_transaction line s =
        create_line
          \<lparr>line_id = 0, line_import_id = imp_id (imp s), transaction_date = d,
           description = fs ! 2,
           amount = (case py_float (py_remove (CHR '','') (fs ! 3)) of Some a \<Rightarrow> a | None \<Rightarrow> 0),
           operation_number = (if fs ! 5 \<noteq> [] \<and> 6 \<le> length (fs ! 5)
                               then py_last6 (fs ! 5) else fs ! 5),
           original_line = line\<rparr> s"
    unfolding parse_txt_transaction_def assms(2) [symmetric] Let_def
    using assms(1,3,4) by simp
  then show ?thesis
    by (auto simp: create_line_def py_last6_def)
qed

theorem bcp_operation_number_last_six_witness:
  "map (\<lambda>f. py_strip (py_strip_chars [dquote] f)) (py_split (CHR '';'') ex_txt_line) ! 5
     = ''000123456789'' \<and>
   map operation_number (line_tbl (parse_txt_transaction ex_txt_line ex_env)) = [[], ''456789'']"
proof -
  let ?fs = "map (\<lambda>f. py_strip (py_strip_chars [dquote] f)) (py_split (CHR '';'') ex_txt_line)"
  have b: "bank_type (imp ex_env) = BCP" by code_simp
  have n: "6 \<le> length ?fs" by code_simp
  have d: "py_strptime (?fs ! 0) DMY_slash = Some \<lparr>d_year = 2024, d_month = 1, d_day = 15\<rparr>"
    by code_simp
  have f: "?fs ! 5 = ''000123456789''" by code_simp
  have l: "map operation_number (line_tbl ex_env) = [[]]" by code_simp
  show ?thesis
    using bcp_operation_number_last_six [OF b refl n d] f l by simp
qed

subsection \<open>The year of a Continental date\<close>

lemma py_split_not_Nil: "py_split sep s \<noteq> []"
  by (induction s) (auto split: list.splits)

lemma py_split_no_sep: "sep \<notin> set s \<Longrightarrow> py_split sep s = [s]"
  by (induction s) auto

lemma py_split_append: "sep \<notin> set a \<Longrightarrow> py_split sep (a @ sep # b) = a # py_split sep b"
proof (induction a)
  case Nil
  then show ?case by (cases "py_split sep b") (auto simp: py_split_not_Nil)
next
  case (Cons x xs)
  then show ?case by auto
qed

lemma digit_not_space: "is_ascii_digit c \<Longrightarrow> \<not> is_space c"
  by (auto simp: is_ascii_digit_def is_space_def)

lemma digit_not_dash: "is_ascii_digit c \<Longrightarrow> c \<noteq> CHR ''-''"
  by (auto simp: is_ascii_digit_def)

lemma py_strip_id:
  assumes "s \<noteq> []" "\<not> is_space (hd s)" "\<not> is_space (last s)"
  shows "py_strip s = s"
proof -
  have a: "dropWhile is_space s = s"
    using assms by (cases s) auto
  have b: "dropWhile is_space (rev s) = rev s"
    using assms by (cases "rev s") (auto simp: hd_rev)
  show ?thesis by (simp add: py_strip_def a b)
qed

lemma digits_strip:
  assumes "s \<noteq> []" "list_all is_ascii_digit s"
  shows "py_strip s = s"
proof (rule py_strip_id)
  show "s \<noteq> []" by fact
  have "is_ascii_digit (hd s)" using assms by (cases s) auto
  then show "\<not> is_space (hd s)" by (rule digit_not_space)
  have "last s \<in> set s" using assms by simp
  then have "is_ascii_digit (last s)" using assms by (simp add: list_all_iff)
  then show "\<not> is_space (last s)" by (rule digit_not_space)
qed

lemma digits_isdigit: "s \<noteq> [] \<Longrightarrow> list_all is_ascii_digit s \<Longrightarrow> py_isdigit s"
  by (auto simp: py_isdigit_def is_digit_char_def list_all_iff)

lemma digits_no_dash: "list_all is_ascii_digit s \<Longrightarrow> CHR ''-'' \<notin> set s"
  by (auto simp: list_all_iff dest: digit_not_dash)

lemma continental_date_dd_mm:
  assumes ds: "ds \<noteq> []" "list_all is_ascii_digit ds"
      and ms: "ms \<noteq> []" "list_all is_ascii_digit ms"
      and rng: "1 \<le> digits_val ds" "digits_val ds \<le> 31" "1 \<le> digits_val ms" "digits_val ms \<le> 12"
  shows "parse_continental_date nw (ds @ ''-'' @ ms) =
           py_date (if d_month nw \<le> 2 \<and> 11 \<le> digits_val ms then d_year nw - 1 else d_year nw)
                   (digits_val ms) (digits_val ds)"
proof -
  let ?s = "ds @ CHR ''-'' # ms"
  have ne: "?s \<noteq> []" using ds by simp
  have "hd ?s = hd ds" using ds by simp
  moreover have "is_ascii_digit (hd ds)" using ds by (cases ds) auto
  ultimately have h: "\<not> is_space (hd ?s)" by (simp add: digit_not_space)
  have "last ?s = last ms" using ms by simp
  moreover have "is_ascii_digit (last ms)" using ms by (simp add: list_all_iff)
  ultimately have l: "\<not> is_space (last ?s)" by (simp add: digit_not_space)
  have strip: "py_strip ?s = ?s" using ne h l by (rule py_strip_id)
  have split: "py_split (CHR ''-'') ?s = [ds, ms]"
    using py_split_append [OF digits_no_dash [OF ds(2)], of ms]
      py_split_no_sep [OF digits_no_dash [OF ms(2)]]
    by simp
  have ints: "py_int ds = Some (digits_val ds)" "py_int ms = Some (digits_val ms)"
    using ds ms by (simp_all add: py_int_def)
  show ?thesis
    using ne rng
    by (simp add: parse_continental_date_def strip split digits_strip ds ms digits_isdigit ints
          Let_def)
qed

text \<open>
  C8. A Continental date string DD-MM, day and month written in decimal digits with the day
  in 1..31 and the month in 1..12, is turned into the date of that day and month in the
  current year, or in the year before when the current month is at most 2 and the month
  read is at least 11 (\<open>py_date\<close> gives no date when the day does not exist in that month).
  In particular "15-12" read in any January is 15 December of the year before.
\<close>

theorem continental_date_assumes_year:
  "(ds \<noteq> [] \<and> list_all is_ascii_digit ds \<and> ms \<noteq> [] \<and> list_all is_ascii_digit ms \<and>
    1 \<le> digits_val ds \<and> digits_val ds \<le> 31 \<and> 1 \<le> digits_val ms \<and> digits_val ms \<le> 12 \<longrightarrow>
    parse_continental_date nw (ds @ ''-'' @ ms) =
      py_date (if d_month nw \<le> 2 \<and> 11 \<le> digits_val ms then d_year nw - 1 else d_year nw)
              (digits_val ms) (digits_val ds)) \<and>
   (d_month nw = 1 \<and> 2 \<le> d_year nw \<and> d_year nw \<le> 9999 \<longrightarrow>
    parse_continental_date nw ''15-12'' =
      Some \<lparr>d_year = d_year nw - 1, d_month = 12, d_day = 15\<rparr>)"
proof (intro conjI impI)
  assume "ds \<noteq> [] \<and> list_all is_ascii_digit ds \<and> ms \<noteq> [] \<and> list_all is_ascii_digit ms \<and>
    1 \<le> digits_val ds \<and> digits_val ds \<le> 31 \<and> 1 \<le> digits_val ms \<and> digits_val ms \<le> 12"
  then show "parse_continental_date nw (ds @ ''-'' @ ms) =
      py_date (if d_month nw \<le> 2 \<and> 11 \<le> digits_val ms then d_year nw - 1 else d_year nw)
              (digits_val ms) (digits_val ds)"
    by (intro continental_date_dd_mm) simp_all
next
  assume jan: "d_month nw = 1 \<and> 2 \<le> d_year nw \<and> d_year nw \<le> 9999"
  have v: "digits_val ''15'' = 15" "digits_val ''12'' = 12"
    by (simp_all add: digits_val_def digit_val_def)
  have "parse_continental_date nw (''15'' @ ''-'' @ ''12'') =
          py_date (if d_month nw \<le> 2 \<and> 11 \<le> digits_val ''12'' then d_year nw - 1 else d_year nw)
                  (digits_val ''12'') (digits_val ''15'')"
    by (rule continental_date_dd_mm) (simp_all add: v is_ascii_digit_def)
  moreover from jan have "1 \<le> d_year nw - 1 \<and> d_year nw - 1 \<le> 9999"
    by arith
  ultimately show "parse_continental_date nw ''15-12'' =
      Some \<lparr>d_year = d_year nw - 1, d_month = 12, d_day = 15\<rparr>"
    using jan by (simp add: v py_date_def days_in_month_def)
qed

theorem continental_date_assumes_year_witness:
  "parse_continental_date (today ex_clock) ''27-08'' = Some \<lparr>d_year = 2025, d_month = 8, d_day = 27\<rparr> \<and>
   parse_continental_date (today ex_clock) ''15-12'' = Some \<lparr>d_year = 2024, d_month = 12, d_day = 15\<rparr>"
proof -
  have v: "digits_val ''27'' = 27" "digits_val ''08'' = 8"
    by (simp_all add: digits_val_def digit_val_def)
  have c: "d_month (today ex_clock) = 1" "d_year (today ex_clock) = 2025"
    by (simp_all add: ex_clock_def)
  have "parse_continental_date (today ex_clock) (''27'' @ ''-'' @ ''08'') =
          py_date 2025 8 27 \<and>
        parse_continental_date (today ex_clock) ''15-12'' =
          Some \<lparr>d_year = 2025 - 1, d_month = 12, d_day = 15\<rparr>"
    using continental_date_assumes_year [of "''27''" "''08''" "today ex_clock"]
    by (simp add: v c is_ascii_digit_def)
  then show ?thesis
    by (simp add: py_date_def days_in_month_def)
qed

subsection \<open>The opening-balance row of a Continental statement\<close>

text \<open>
  C7, as stated, fails: a row is skipped by the opening-balance test also when its
  description is not the marker itself. The row below, description "Pago saldo anterior",
  is skipped, though the rest of the loop would have made a transaction of it.
\<close>

theorem saldo_anterior_inside_description_skipped:
  "cell_text [] (Some (ex_cont_row ! 2)) = ''Pago saldo anterior'' \<and>
   saldo_anterior_skip ex_cont_mapping ex_cont_row = Inr True \<and>
   continental_row ex_cont_mapping ex_cont_row (ex_nacion, 0) = (ex_nacion, 0) \<and>
   snd (continental_create ex_cont_mapping ex_cont_row (ex_nacion, 0)) = 1"
  by code_simp

text \<open>
  C7, amended. With the description column mapped at an index other than 0, a data row
  that is not empty is skipped (no transaction, the count of created lines unchanged)
  exactly when its description, trimmed and upper-cased, contains "SALDO ANTERIOR"; a
  description that is the marker itself is such a row. Every other row goes on to the
  rest of the loop.
\<close>

theorem saldo_anterior_rule:
  assumes "cc_descripcion cm = Some i" and "0 < i" and "i < length r" and "list_ex truthy r"
  shows "continental_row cm r sn =
           (if truthy (r ! i) \<and> py_in ''SALDO ANTERIOR'' (py_upper (py_strip (py_str (r ! i))))
            then sn else continental_create cm r sn) \<and>
         (r ! i = CStr ''SALDO ANTERIOR'' \<longrightarrow> continental_row cm r sn = sn)"
proof -
  have m: "py_in ''SALDO ANTERIOR'' (py_upper (py_strip (py_str (CStr ''SALDO ANTERIOR''))))"
    by code_simp
  have e: "\<not> py_in ''SALDO ANTERIOR'' []"
    by simp
  have "continental_row cm r sn =
           (if truthy (r ! i) \<and> py_in ''SALDO ANTERIOR'' (py_upper (py_strip (py_str (r ! i))))
            then sn else continental_create cm r sn)"
    using assms e by (simp add: continental_row_def saldo_anterior_skip_def)
  then show ?thesis
    using m by simp
qed

theorem saldo_anterior_rule_witness:
  "continental_row ex_cont_mapping ex_marker_row (ex_nacion, 0) = (ex_nacion, 0) \<and>
   continental_row ex_cont_mapping ex_cont_row (ex_nacion, 0) = (ex_nacion, 0)"
proof -
  have c: "cc_descripcion ex_cont_mapping = Some 2" by (simp add: ex_cont_mapping_def)
  have l: "2 < length ex_marker_row" "2 < length ex_cont_row"
    by (simp_all add: ex_marker_row_def ex_cont_row_def)
  have t: "list_ex truthy ex_marker_row" "list_ex truthy ex_cont_row"
    by (simp_all add: ex_marker_row_def ex_cont_row_def)
  have v: "ex_marker_row ! 2 = CStr ''SALDO ANTERIOR''" by (simp add: ex_marker_row_def)
  have w: "truthy (ex_cont_row ! 2) \<and>
           py_in ''SALDO ANTERIOR'' (py_upper (py_strip (py_str (ex_cont_row ! 2))))"
    by code_simp
  have m: "py_in ''SALDO ANTERIOR'' (py_upper (py_strip ''SALDO ANTERIOR''))"
    by code_simp
  show ?thesis
    using saldo_anterior_rule [OF c _ l(1) t(1), of "(ex_nacion, 0)"]
      saldo_anterior_rule [OF c _ l(2) t(2), of "(ex_nacion, 0)"] v w m
    by simp
qed

subsection \<open>The sign of a spreadsheet amount\<close>

text \<open>
  C6 at a row without debit whose credit cell holds -50.00, under the header Fecha,
  Descripcion, Cargo, Abono, Nro Operacion: the debit step leaves 0.0, the credit step
  stores the credit value as it is, and the amount of the transaction is -50, not a
  positive number.
\<close>

theorem negative_credit_gives_negative_amount:
  "get_excel_column_mapping (map py_str ex_header) =
     \<lparr>cm_date = Some 0, cm_description = Some 1, cm_cargo = Some 2, cm_abono = Some 3,
      cm_operation = Some 4\<rparr> \<and>
   cargo_amount Openpyxl (get_excel_column_mapping (map py_str ex_header)) ex_credit_row = 0 \<and>
   map amount (line_tbl (create_excel_import_line ex_credit_row
                           (get_excel_column_mapping (map py_str ex_header)) Openpyxl ex_nacion))
     = [- 50]"
  by code_simp

theorem negative_credit_gives_negative_amount_witness:
  "amount (last (line_tbl (create_excel_import_line ex_credit_row
                             (get_excel_column_mapping (map py_str ex_header)) Openpyxl ex_nacion)))
     < 0"
  using negative_credit_gives_negative_amount by (auto simp: map_eq_Cons_conv)

subsection \<open>The header row of a generic spreadsheet\<close>

text \<open>
  C5 at a sheet of eleven rows whose header, the first row with a cell containing
  "fecha", is the tenth: the openpyxl path looks at rows 1 to 9 only and fails with the
  error of the missing header, while the xlrd path, on the same rows, looks at ten rows,
  finds the header and extracts the transaction below it.
\<close>

theorem header_in_tenth_row_not_found:
  "length ex_sheet = 11 \<and> ex_sheet ! 9 = ex_header \<and>
   parse_excel_openpyxl ex_sheet ex_nacion = (Some Header_not_found, ex_nacion) \<and>
   fst (parse_excel_xlrd ex_sheet ex_nacion) = None \<and>
   map operation_number (line_tbl (snd (parse_excel_xlrd ex_sheet ex_nacion))) = [''778899'']"
  by code_simp

subsection \<open>The tag of a match accepted on the amount alone\<close>

text \<open>
  C1 at a transaction of 100.00 without operation number and a posted payment of 100.00:
  the payment is in the amount-matched pool, no rule can hit on an empty operation
  number, and the Match record created is tagged exact, not partial.
\<close>

theorem empty_operation_number_tagged_exact:
  "operation_number ex_line = [] \<and>
   amount_matches ex_line ex_env = [ex_payment] \<and>
   find_matching_payments ex_line ex_env =
     (Inr 1, ex_env\<lparr>match_tbl := [ex_match], next_match_id := 2\<rparr>) \<and>
   match_type ex_match = Exact"
  by code_simp

subsection \<open>Processing that fails on the user's input\<close>

text \<open>
  C3, as stated, fails: with a file that is not UTF-8, \<open>action_process_file\<close> reports the
  error after the transactions of the earlier run have been deleted.
\<close>

theorem process_clears_lines_before_failing:
  "fst (action_process_file ex_undecodable) = Some Txt_error \<and>
   self_lines ex_undecodable = [ex_line] \<and>
   self_lines (snd (action_process_file ex_undecodable)) = []"
  by code_simp

text \<open>
  C3, amended. Without a file the call raises and leaves the store as it was. With a
  text file that cannot be decoded, or a spreadsheet file and no spreadsheet library
  installed, the call raises after \<open>unlink_lines\<close> and nothing else: the Import record
  (its state too) is as before, and its transaction set is empty.
\<close>

theorem process_user_input_errors:
  "(file_data (imp s) = None \<longrightarrow> action_process_file s = (Some No_file, s)) \<and>
   (file_data (imp s) = Some (Bytes b) \<and> compute_file_type (file_name (imp s)) = Txt \<and>
    utf8_text b = None \<longrightarrow>
      action_process_file s = (Some Txt_error, unlink_lines s)) \<and>
   (file_data (imp s) = Some (Bytes b) \<and> compute_file_type (file_name (imp s)) = Excel \<and>
    \<not> openpyxl_available s \<and> \<not> xlrd_available s \<longrightarrow>
      action_process_file s = (Some No_excel_library, unlink_lines s)) \<and>
   imp (unlink_lines s) = imp s \<and> self_lines (unlink_lines s) = []"
proof (intro conjI impI)
  assume "file_data (imp s) = None"
  then show "action_process_file s = (Some No_file, s)"
    by (simp add: action_process_file_def)
next
  assume "file_data (imp s) = Some (Bytes b) \<and> compute_file_type (file_name (imp s)) = Txt \<and>
    utf8_text b = None"
  then show "action_process_file s = (Some Txt_error, unlink_lines s)"
    by (simp add: action_process_file_def process_txt_file_def unlink_lines_def)
next
  assume "file_data (imp s) = Some (Bytes b) \<and> compute_file_type (file_name (imp s)) = Excel \<and>
    \<not> openpyxl_available s \<and> \<not> xlrd_available s"
  then show "action_process_file s = (Some No_excel_library, unlink_lines s)"
    by (simp add: action_process_file_def process_excel_file_def unlink_lines_def)
next
  show "imp (unlink_lines s) = imp s"
    by (simp add: unlink_lines_def)
next
  show "self_lines (unlink_lines s) = []"
    by (simp add: unlink_lines_def self_lines_def)
qed

theorem process_user_input_errors_witness:
  "action_process_file ex_no_file = (Some No_file, ex_no_file) \<and>
   action_process_file ex_undecodable = (Some Txt_error, unlink_lines ex_undecodable) \<and>
   action_process_file ex_no_backend = (Some No_excel_library, unlink_lines ex_no_backend) \<and>
   imp_state (imp (unlink_lines ex_undecodable)) = Draft \<and>
   self_lines (unlink_lines ex_undecodable) = []"
proof -
  have a: "file_data (imp ex_no_file) = None" by code_simp
  have b: "file_data (imp ex_undecodable) = Some (Bytes (ex_bytes\<lparr>utf8_text := None\<rparr>)) \<and>
           compute_file_type (file_name (imp ex_undecodable)) = Txt \<and>
           utf8_text (ex_bytes\<lparr>utf8_text := None\<rparr>) = None" by code_simp
  have c: "file_data (imp ex_no_backend) = Some (Bytes ex_bytes) \<and>
           compute_file_type (file_name (imp ex_no_backend)) = Excel \<and>
           \<not> openpyxl_available ex_no_backend \<and> \<not> xlrd_available ex_no_backend" by code_simp
  have d: "imp_state (imp ex_undecodable) = Draft" by code_simp
  show ?thesis
    using a b c d process_user_input_errors [of ex_no_file]
      process_user_input_errors [of ex_undecodable "ex_bytes\<lparr>utf8_text := None\<rparr>"]
      process_user_input_errors [of ex_no_backend ex_bytes]
    by simp
qed

subsection \<open>No two Match records for one transaction and payment\<close>

lemma create_match_pairs:
  assumes "create_match v s = Inr s'" "match_import_id v = imp_id (imp s)"
  shows "match_pairs s' = match_pairs s @ [(import_line_id v, payment_id v)]"
    and "imp s' = imp s"
  using assms
  by (auto simp: create_match_def match_pairs_def self_matches_def split: if_splits)

lemma existing_match_Nil:
  "existing_match s pid lid = [] \<Longrightarrow> (lid, pid) \<notin> set (match_pairs s)"
  by (auto simp: existing_match_def match_pairs_def self_matches_def filter_empty_conv)

lemma guarded_create_distinct:
  assumes "distinct (match_pairs s)" "existing_match s pid lid = []"
    and "create_match \<lparr>match_id = k, match_import_id = imp_id (imp s), import_line_id = lid,
                        payment_id = pid, match_type = t\<rparr> s = Inr s'"
  shows "distinct (match_pairs s') \<and> imp s' = imp s"
  using create_match_pairs [OF assms(3)] existing_match_Nil [OF assms(2)] assms(1)
  by simp

lemma match_by_amount_distinct:
  "distinct (match_pairs s) \<Longrightarrow> match_by_amount l ps n s = (r, s') \<Longrightarrow>
   distinct (match_pairs s') \<and> imp s' = imp s"
proof (induction ps arbitrary: n s)
  case Nil
  then show ?case by simp
next
  case (Cons p ps)
  show ?case
  proof (cases "(check_operation_match p (operation_number l) \<or> operation_number l = [])
                \<and> existing_match s (pay_id p) (line_id l) = []")
    case False
    then have "match_by_amount l (p # ps) n s = match_by_amount l ps n s"
      by (auto simp: Let_def)
    with Cons show ?thesis by auto
  next
    case True
    let ?v = "\<lparr>match_id = 0, match_import_id = imp_id (imp s), import_line_id = line_id l,
               payment_id = pay_id p,
               match_type = (if check_operation_match p (operation_number l) then Exact else Partial)\<rparr>"
    show ?thesis
    proof (cases "create_match ?v s")
      case (Inl e)
      with True Cons.prems show ?thesis by (auto simp: Let_def)
    next
      case (Inr s1)
      from guarded_create_distinct [OF Cons.prems(1) _ Inr] True
      have d: "distinct (match_pairs s1)" and i: "imp s1 = imp s" by auto
      from True Inr Cons.prems(2) have "match_by_amount l ps (Suc n) s1 = (r, s')"
        by (auto simp: Let_def)
      from Cons.IH [OF d this] i show ?thesis by simp
    qed
  qed
qed

lemma match_by_operation_distinct:
  "distinct (match_pairs s) \<Longrightarrow> match_by_operation l ps n s = (k, s') \<Longrightarrow>
   distinct (match_pairs s') \<and> imp s' = imp s"
proof (induction ps arbitrary: n s)
  case Nil
  then show ?case by simp
next
  case (Cons p ps)
  show ?case
  proof (cases "check_operation_match p (operation_number l)
                \<and> existing_match s (pay_id p) (line_id l) = []")
    case False
    then have "match_by_operation l (p # ps) n s = match_by_operation l ps n s"
      by auto
    with Cons show ?thesis by auto
  next
    case True
    let ?v = "\<lparr>match_id = 0, match_import_id = imp_id (imp s), import_line_id = line_id l,
               payment_id = pay_id p, match_type = Partial\<rparr>"
    show ?thesis
    proof (cases "create_match ?v s")
      case (Inl e)
      with True Cons.prems have "match_by_operation l ps n s = (k, s')" by auto
      from Cons.IH [OF Cons.prems(1) this] show ?thesis .
    next
      case (Inr s1)
      from guarded_create_distinct [OF Cons.prems(1) _ Inr] True
      have d: "distinct (match_pairs s1)" and i: "imp s1 = imp s" by auto
      from True Inr Cons.prems(2) have "match_by_operation l ps (Suc n) s1 = (k, s')"
        by auto
      from Cons.IH [OF d this] i show ?thesis by simp
    qed
  qed
qed

lemma find_matching_payments_distinct:
  assumes "distinct (match_pairs s)" "find_matching_payments l s = (r, s')"
  shows "distinct (match_pairs s') \<and> imp s' = imp s"
proof -
  obtain r1 s1 where a: "match_by_amount l (amount_matches l s) 0 s = (r1, s1)"
    by (cases "match_by_amount l (amount_matches l s) 0 s")
  from match_by_amount_distinct [OF assms(1) a]
  have d1: "distinct (match_pairs s1)" and i1: "imp s1 = imp s" by auto
  show ?thesis
  proof (cases "\<exists>m. r1 = Inr m \<and> m = 0 \<and> operation_number l \<noteq> []")
    case False
    with a assms(2) have "s' = s1"
      by (auto simp: find_matching_payments_def split: sum.splits if_splits)
    with d1 i1 show ?thesis by simp
  next
    case True
    obtain k s2 where b: "match_by_operation l (active_payments s1) 0 s1 = (k, s2)"
      by (cases "match_by_operation l (active_payments s1) 0 s1")
    with True a assms(2) have "s' = s2"
      by (auto simp: find_matching_payments_def)
    with match_by_operation_distinct [OF d1 b] i1 show ?thesis by simp
  qed
qed

lemma match_lines_distinct:
  "distinct (match_pairs s) \<Longrightarrow> match_lines ls n s = (r, s') \<Longrightarrow>
   distinct (match_pairs s') \<and> imp s' = imp s"
proof (induction ls arbitrary: n s)
  case Nil
  then show ?case by simp
next
  case (Cons l ls)
  obtain r1 s1 where a: "find_matching_payments l s = (r1, s1)"
    by (cases "find_matching_payments l s")
  from find_matching_payments_distinct [OF Cons.prems(1) a]
  have d1: "distinct (match_pairs s1)" and i1: "imp s1 = imp s" by auto
  show ?case
  proof (cases r1)
    case (Inl e)
    with a Cons.prems(2) have "s' = s1" by simp
    with d1 i1 show ?thesis by simp
  next
    case (Inr m)
    with a Cons.prems(2) have "match_lines ls (n + m) s1 = (r, s')" by simp
    from Cons.IH [OF d1 this] i1 show ?thesis by simp
  qed
qed

lemma match_pairs_unlink: "match_pairs (unlink_matches s) = []"
  by (simp add: match_pairs_def self_matches_def unlink_matches_def)

lemma match_pairs_imp_update:
  "imp_id i = imp_id (imp s) \<Longrightarrow> match_pairs (s\<lparr>imp := i\<rparr>) = match_pairs s"
  by (simp add: match_pairs_def self_matches_def)

lemma action_match_payments_distinct:
  assumes "distinct (match_pairs s)"
  shows "distinct (match_pairs (snd (action_match_payments s)))"
proof (cases "self_lines s = []")
  case True
  with assms show ?thesis by (simp add: action_match_payments_def)
next
  case False
  obtain r s1 where a: "match_lines (self_lines s) 0 (unlink_matches s) = (r, s1)"
    by (cases "match_lines (self_lines s) 0 (unlink_matches s)")
  have "distinct (match_pairs (unlink_matches s))" by (simp add: match_pairs_unlink)
  from match_lines_distinct [OF this a] have "distinct (match_pairs s1)" by simp
  with False a show ?thesis
    by (cases r) (simp_all add: action_match_payments_def match_pairs_imp_update)
qed

lemma find_advanced_matches_distinct:
  "distinct (map pay_id ps) \<Longrightarrow> distinct (match_pairs s) \<Longrightarrow>
   list_all (\<lambda>q. (line_id l, pay_id q) \<notin> set (match_pairs s)) ps \<Longrightarrow>
   find_advanced_matches w l ps matched s = (r, s') \<Longrightarrow>
   distinct (match_pairs s') \<and> imp s' = imp s \<and>
   set (match_pairs s') \<subseteq> set (match_pairs s) \<union> {line_id l} \<times> pay_id ` set ps"
proof (induction ps arbitrary: matched s)
  case Nil
  then show ?case by simp
next
  case (Cons p ps)
  let ?v = "\<lambda>sc. \<lparr>match_id = 0, match_import_id = imp_id (imp s), import_line_id = line_id l,
                  payment_id = pay_id p,
                  match_type = (if 100 \<le> sc then Exact else Partial)\<rparr>"
  from Cons.prems have dps: "distinct (map pay_id ps)"
    and fresh: "list_all (\<lambda>q. (line_id l, pay_id q) \<notin> set (match_pairs s)) ps"
    and pnew: "(line_id l, pay_id p) \<notin> set (match_pairs s)"
    and pnot: "pay_id p \<notin> pay_id ` set ps"
    by auto
  show ?case
  proof (cases "calculate_match_score w l p")
    case (Inl e)
    with Cons.prems show ?thesis by auto
  next
    case (Inr sc)
    show ?thesis
    proof (cases "0 < sc")
      case False
      with Inr Cons.prems(4) have "find_advanced_matches w l ps matched s = (r, s')" by simp
      from Cons.IH [OF dps Cons.prems(2) fresh this] show ?thesis by auto
    next
      case True
      show ?thesis
      proof (cases "create_match (?v sc) s")
        case (Inl e)
        with True Inr Cons.prems show ?thesis by auto
      next
        case (Inr s1)
        from create_match_pairs [OF Inr]
        have mp: "match_pairs s1 = match_pairs s @ [(line_id l, pay_id p)]"
          and i: "imp s1 = imp s" by simp_all
        have d1: "distinct (match_pairs s1)" using mp pnew Cons.prems(2) by simp
        have f1: "list_all (\<lambda>q. (line_id l, pay_id q) \<notin> set (match_pairs s1)) ps"
          unfolding list_all_iff
        proof
          fix q assume q: "q \<in> set ps"
          then have "pay_id q \<noteq> pay_id p" using pnot by (metis imageI)
          moreover have "(line_id l, pay_id q) \<notin> set (match_pairs s)"
            using fresh q by (simp add: list_all_iff)
          ultimately show "(line_id l, pay_id q) \<notin> set (match_pairs s1)"
            using mp by simp
        qed
        from True Inr \<open>calculate_match_score w l p = Inr sc\<close> Cons.prems(4) i
        have "find_advanced_matches w l ps (matched @ [p]) s1 = (r, s')" by simp
        from Cons.IH [OF dps d1 f1 this] mp i show ?thesis by auto
      qed
    qed
  qed
qed

lemma advanced_lines_distinct:
  "distinct (map pay_id ps) \<Longrightarrow> distinct (map line_id ls) \<Longrightarrow> distinct (match_pairs s) \<Longrightarrow>
   list_all (\<lambda>l. line_id l \<notin> fst ` set (match_pairs s)) ls \<Longrightarrow>
   advanced_lines w ps ls n s = (r, s') \<Longrightarrow>
   distinct (match_pairs s') \<and> imp s' = imp s"
proof (induction ls arbitrary: n s)
  case Nil
  then show ?case by simp
next
  case (Cons l ls)
  obtain r1 s1 where a: "find_advanced_matches w l ps [] s = (r1, s1)"
    by (cases "find_advanced_matches w l ps [] s")
  from Cons.prems have lnew: "line_id l \<notin> fst ` set (match_pairs s)"
    and dls: "distinct (map line_id ls)" and lnot: "line_id l \<notin> line_id ` set ls"
    and rest: "list_all (\<lambda>l. line_id l \<notin> fst ` set (match_pairs s)) ls"
    by auto
  have "list_all (\<lambda>q. (line_id l, pay_id q) \<notin> set (match_pairs s)) ps"
    using lnew by (force simp: list_all_iff)
  from find_advanced_matches_distinct [OF Cons.prems(1) Cons.prems(3) this a]
  have d1: "distinct (match_pairs s1)" and i1: "imp s1 = imp s"
    and sub: "set (match_pairs s1) \<subseteq> set (match_pairs s) \<union> {line_id l} \<times> pay_id ` set ps"
    by auto
  show ?case
  proof (cases r1)
    case (Inl e)
    with a Cons.prems(5) have "s' = s1" by simp
    with d1 i1 show ?thesis by simp
  next
    case (Inr m)
    have f1: "list_all (\<lambda>l. line_id l \<notin> fst ` set (match_pairs s1)) ls"
      unfolding list_all_iff
    proof
      fix l' assume m: "l' \<in> set ls"
      show "line_id l' \<notin> fst ` set (match_pairs s1)"
      proof
        assume "line_id l' \<in> fst ` set (match_pairs s1)"
        then obtain b where "(line_id l', b) \<in> set (match_pairs s1)" by force
        with sub have "(line_id l', b) \<in> set (match_pairs s) \<or> line_id l' = line_id l"
          by auto
        moreover have "line_id l' \<notin> fst ` set (match_pairs s)"
          using rest m by (simp add: list_all_iff)
        moreover have "line_id l' \<noteq> line_id l" using lnot m by (metis imageI)
        ultimately show False by force
      qed
    qed
    from Inr a Cons.prems(5) have "advanced_lines w ps ls (n + length m) s1 = (r, s')" by simp
    from Cons.IH [OF Cons.prems(1) dls d1 f1 this] i1 show ?thesis by simp
  qed
qed

lemma action_advanced_match_distinct:
  assumes "distinct (map pay_id (payment_tbl s))" "distinct (map line_id (line_tbl s))"
  shows "distinct (match_pairs (snd (action_advanced_match w s)))"
proof -
  let ?u = "unlink_matches s"
  obtain r s1 where a: "advanced_lines w (wizard_payments w ?u) (self_lines ?u) 0 ?u = (r, s1)"
    by (cases "advanced_lines w (wizard_payments w ?u) (self_lines ?u) 0 ?u")
  have p: "distinct (map pay_id (wizard_payments w ?u))"
    using assms(1) by (simp add: wizard_payments_def unlink_matches_def distinct_map_filter)
  have l: "distinct (map line_id (self_lines ?u))"
    using assms(2) by (simp add: self_lines_def unlink_matches_def distinct_map_filter)
  have e: "match_pairs ?u = []" by (rule match_pairs_unlink)
  from advanced_lines_distinct [OF p l _ _ a] e have "distinct (match_pairs s1)"
    by (simp add: list_all_iff)
  with a show ?thesis
    by (cases r) (simp_all add: action_advanced_match_def match_pairs_imp_update)
qed

text \<open>
  C2. In a store whose payments and transaction lines have distinct identifiers, a run of
  \<open>action_match_payments\<close> or of \<open>action_advanced_match\<close>, whether it returns or raises,
  leaves the Import with Match records of pairwise different (transaction line, payment)
  pairs. The default engine clears the records and asks the store before each creation;
  the wizard clears them and visits every pair of a line and a payment once. (A run of
  the default engine stopped by its guard changes nothing, so it keeps the pairs
  different if they were.)
\<close>

theorem no_duplicate_matches:
  assumes "distinct (match_pairs s)"
    and "distinct (map pay_id (payment_tbl s))"
    and "distinct (map line_id (line_tbl s))"
  shows "distinct (match_pairs (snd (action_match_payments s))) \<and>
         distinct (match_pairs (snd (action_advanced_match w s)))"
  using assms action_match_payments_distinct action_advanced_match_distinct by blast

theorem no_duplicate_matches_witness:
  "match_pairs (snd (action_match_payments ex_env)) = [(3, 7)] \<and>
   match_pairs (snd (action_advanced_match ex_wizard ex_env)) = [(3, 7)] \<and>
   distinct (match_pairs (snd (action_match_payments ex_env))) \<and>
   distinct (match_pairs (snd (action_advanced_match ex_wizard ex_env)))"
proof -
  have a: "distinct (match_pairs ex_env)" by code_simp
  have b: "distinct (map pay_id (payment_tbl ex_env))" by code_simp
  have c: "distinct (map line_id (line_tbl ex_env))" by code_simp
  have d: "match_pairs (snd (action_match_payments ex_env)) = [(3, 7)]" by code_simp
  have e: "match_pairs (snd (action_advanced_match ex_wizard ex_env)) = [(3, 7)]" by code_simp
  show ?thesis
    using no_duplicate_matches [OF a b c, of ex_wizard] d e by simp
qed

subsection \<open>Processing twice\<close>

lemma fold_rel:
  assumes "\<And>x a b. R a b \<Longrightarrow> R (f x a) (f x b)" "R a b"
  shows "R (fold f xs a) (fold f xs b)"
  using assms(2) by (induction xs arbitrary: a b) (auto simp: assms(1))

lemma fold_inv:
  assumes "\<And>x a. P a \<Longrightarrow> P (f x a)" "P a"
  shows "P (fold f xs a)"
  using assms(2) by (induction xs arbitrary: a) (auto simp: assms(1))

lemma sim_reads:
  assumes "sim s t"
  shows "imp_id (imp s) = imp_id (imp t)" "bank_type (imp s) = bank_type (imp t)"
    "file_data (imp s) = file_data (imp t)" "file_name (imp s) = file_name (imp t)"
    "openpyxl_available s = openpyxl_available t" "xlrd_available s = xlrd_available t"
  using assms by (simp_all add: sim_def inputs_def)

lemma simd_reads:
  assumes "simd s t"
  shows "imp_id (imp s) = imp_id (imp t)" "bank_type (imp s) = bank_type (imp t)"
    "file_data (imp s) = file_data (imp t)" "file_name (imp s) = file_name (imp t)"
    "openpyxl_available s = openpyxl_available t" "xlrd_available s = xlrd_available t"
    "today (now s) = today (now t)"
  using assms by (simp_all add: simd_def sim_def inputs_def)

lemma readonly_create_line: "readonly (create_line v s) = readonly s"
  by (simp add: readonly_def inputs_def create_line_def)

lemma line_vals_import_id: "line_vals v = line_vals v' \<Longrightarrow> line_import_id v = line_import_id v'"
  by (simp add: line_vals_def)
     (metis bank_import_line.select_convs(2) bank_import_line.surjective
        bank_import_line.update_convs(1))

lemma sim_create_line:
  assumes "sim s t" "line_vals v = line_vals v'"
  shows "sim (create_line v s) (create_line v' t)"
proof -
  have l: "line_vals (v\<lparr>line_id := n\<rparr>) = line_vals (v'\<lparr>line_id := m\<rparr>)" for n m
    using assms(2) by (simp add: line_vals_def)
  show ?thesis
    using assms(1) line_vals_import_id [OF assms(2)] l
    by (auto simp: sim_def inputs_def create_line_def transaction_set_def self_lines_def)
qed

lemma simd_create_line:
  assumes "simd s t" "line_vals v = line_vals v'"
  shows "simd (create_line v s) (create_line v' t)"
proof -
  from assms(1) have "sim s t" and "today (now s) = today (now t)"
    by (simp_all add: simd_def)
  with sim_create_line [OF _ assms(2)] show ?thesis
    by (simp add: simd_def create_line_def)
qed

lemma parse_txt_transaction_readonly: "readonly (parse_txt_transaction line s) = readonly s"
  by (simp add: parse_txt_transaction_def Let_def readonly_create_line split: option.splits)

lemma parse_txt_transaction_sim:
  assumes "sim s t"
  shows "sim (parse_txt_transaction line s) (parse_txt_transaction line t)"
  using assms sim_reads [OF assms]
  by (auto simp: parse_txt_transaction_def Let_def line_vals_def intro!: sim_create_line
           split: option.splits)

lemma process_txt_file_readonly: "readonly (snd (process_txt_file s)) = readonly s"
proof -
  have "readonly (fold parse_txt_transaction ls s) = readonly s" for ls
    by (rule fold_inv [where P = "\<lambda>a. readonly a = readonly s"])
       (simp_all add: parse_txt_transaction_readonly)
  then show ?thesis
    by (simp add: process_txt_file_def Let_def split: option.splits payload.splits)
qed

lemma process_txt_file_sim:
  assumes "sim s t"
  shows "rsim (process_txt_file s) (process_txt_file t)"
proof -
  have "sim (fold parse_txt_transaction ls s) (fold parse_txt_transaction ls t)" for ls
    using parse_txt_transaction_sim assms by (rule fold_rel)
  then show ?thesis
    using assms sim_reads(3) [OF assms]
    by (simp add: process_txt_file_def rsim_def Let_def split: option.splits payload.splits)
qed

lemma create_excel_import_line_readonly:
  "readonly (create_excel_import_line r cm p s) = readonly s"
  by (simp add: create_excel_import_line_def Let_def readonly_create_line)

lemma create_excel_import_line_simd:
  assumes "simd s t"
  shows "simd (create_excel_import_line r cm p s) (create_excel_import_line r cm p t)"
  using assms simd_reads [OF assms]
  by (auto simp: create_excel_import_line_def Let_def intro!: simd_create_line
           cong: option.case_cong)

lemma excel_row_readonly: "readonly (fst (excel_row p cm r sn)) = readonly (fst sn)"
  by (simp add: excel_row_def create_excel_import_line_readonly)

lemma excel_row_simd: "simd2 a b \<Longrightarrow> simd2 (excel_row p cm r a) (excel_row p cm r b)"
  by (simp add: excel_row_def simd2_def create_excel_import_line_simd)

lemma continental_create_readonly:
  "readonly (fst (continental_create cm r sn)) = readonly (fst sn)"
  by (simp add: continental_create_def Let_def readonly_create_line split: sum.splits)

lemma continental_create_simd:
  assumes "simd2 a b"
  shows "simd2 (continental_create cm r a) (continental_create cm r b)"
proof -
  from assms have s: "simd (fst a) (fst b)" and n: "snd a = snd b"
    by (simp_all add: simd2_def)
  show ?thesis
    using assms simd_reads [OF s] n
    by (auto simp: continental_create_def Let_def simd2_def intro!: simd_create_line
             split: sum.splits cong: option.case_cong)
qed

lemma continental_row_readonly: "readonly (fst (continental_row cm r sn)) = readonly (fst sn)"
  by (simp add: continental_row_def continental_create_readonly split: sum.splits)

lemma continental_row_simd:
  "simd2 a b \<Longrightarrow> simd2 (continental_row cm r a) (continental_row cm r b)"
  by (simp add: continental_row_def continental_create_simd split: sum.splits)

lemma fold_rows_readonly:
  assumes "\<And>r sn. readonly (fst (f r sn)) = readonly (fst sn)"
  shows "readonly (fst (fold f rows (s, n))) = readonly s"
  using fold_inv [where P = "\<lambda>a. readonly (fst a) = readonly s" and f = f and a = "(s, n)"] assms
  by simp

lemma fold_rows_simd:
  assumes "\<And>r a b. simd2 a b \<Longrightarrow> simd2 (f r a) (f r b)" "simd s t"
  shows "simd2 (fold f rows (s, n)) (fold f rows (t, n))"
proof (rule fold_rel [where R = simd2])
  show "simd2 (f x a) (f x b)" if "simd2 a b" for x a b
    using that by (rule assms(1))
  show "simd2 (s, n) (t, n)"
    using assms(2) by (simp add: simd2_def)
qed

lemma parse_continental_excel_openpyxl_readonly:
  "readonly (snd (parse_continental_excel_openpyxl sheet s)) = readonly s"
  by (simp add: parse_continental_excel_openpyxl_def Let_def fold_rows_readonly
        continental_row_readonly split: option.splits)

lemma parse_continental_excel_openpyxl_simd:
  assumes "simd s t"
  shows "rsimd (parse_continental_excel_openpyxl sheet s) (parse_continental_excel_openpyxl sheet t)"
proof -
  have "simd2 (fold (continental_row cm) rows (s, 0)) (fold (continental_row cm) rows (t, 0))"
    for cm rows
    using continental_row_simd assms by (rule fold_rows_simd)
  then show ?thesis
    using assms
    by (simp add: parse_continental_excel_openpyxl_def Let_def rsimd_def simd2_def
          split: option.splits)
qed

lemma parse_excel_openpyxl_readonly: "readonly (snd (parse_excel_openpyxl sheet s)) = readonly s"
  by (simp add: parse_excel_openpyxl_def Let_def fold_rows_readonly excel_row_readonly
        parse_continental_excel_openpyxl_readonly split: option.splits)

lemma parse_excel_openpyxl_simd:
  assumes "simd s t"
  shows "rsimd (parse_excel_openpyxl sheet s) (parse_excel_openpyxl sheet t)"
proof -
  have "simd2 (fold (excel_row p cm) rows (s, 0)) (fold (excel_row p cm) rows (t, 0))"
    for p cm rows
    using excel_row_simd assms by (rule fold_rows_simd)
  then show ?thesis
    using assms simd_reads(2) [OF assms] parse_continental_excel_openpyxl_simd [OF assms]
    by (simp add: parse_excel_openpyxl_def Let_def rsimd_def simd2_def split: option.splits)
qed

lemma parse_excel_xlrd_readonly: "readonly (snd (parse_excel_xlrd sheet s)) = readonly s"
  by (simp add: parse_excel_xlrd_def Let_def fold_rows_readonly excel_row_readonly
        split: option.splits)

lemma parse_excel_xlrd_simd:
  assumes "simd s t"
  shows "rsimd (parse_excel_xlrd sheet s) (parse_excel_xlrd sheet t)"
proof -
  have "simd2 (fold (excel_row p cm) rows (s, 0)) (fold (excel_row p cm) rows (t, 0))"
    for p cm rows
    using excel_row_simd assms by (rule fold_rows_simd)
  then show ?thesis
    using assms simd_reads(2) [OF assms]
    by (simp add: parse_excel_xlrd_def Let_def rsimd_def simd2_def split: option.splits)
qed

lemma openpyxl_attempt_readonly: "readonly (snd (openpyxl_attempt b s)) = readonly s"
  by (simp add: openpyxl_attempt_def parse_excel_openpyxl_readonly split: sum.splits)

lemma openpyxl_attempt_simd:
  "simd s t \<Longrightarrow> rsimd (openpyxl_attempt b s) (openpyxl_attempt b t)"
  by (simp add: openpyxl_attempt_def parse_excel_openpyxl_simd split: sum.splits)
     (simp add: rsimd_def)

lemma xlrd_attempt_readonly: "readonly (snd (xlrd_attempt b s)) = readonly s"
  by (simp add: xlrd_attempt_def parse_excel_xlrd_readonly split: sum.splits option.splits)

lemma xlrd_attempt_simd:
  assumes "simd s t"
  shows "rsimd (xlrd_attempt b s) (xlrd_attempt b t)"
  using assms simd_reads(2) [OF assms] parse_excel_xlrd_simd [OF assms]
  by (simp add: xlrd_attempt_def rsimd_def split: sum.splits option.splits)

lemma xlrd_stage_readonly: "readonly (snd (xlrd_stage b s)) = readonly s"
proof (cases "xlrd_attempt b s")
  case (Pair r s1)
  with xlrd_attempt_readonly [of b s] show ?thesis
    by (cases r) (simp_all add: xlrd_stage_def)
qed

lemma xlrd_stage_simd:
  assumes "simd s t"
  shows "rsimd (xlrd_stage b s) (xlrd_stage b t)"
proof (cases "xlrd_attempt b s")
  case (Pair r s1)
  obtain r' t1 where t: "xlrd_attempt b t = (r', t1)"
    by (cases "xlrd_attempt b t")
  from xlrd_attempt_simd [OF assms, of b] Pair t have "r' = r" "simd s1 t1"
    by (simp_all add: rsimd_def)
  with Pair t assms simd_reads(6) [OF assms] show ?thesis
    by (cases r) (simp_all add: xlrd_stage_def rsimd_def)
qed

lemma process_excel_file_readonly: "readonly (snd (process_excel_file s)) = readonly s"
proof (cases "file_data (imp s)")
  case None
  then show ?thesis by (simp add: process_excel_file_def)
next
  case (Some pl)
  show ?thesis
  proof (cases pl)
    case Bad_base64
    with Some show ?thesis by (simp add: process_excel_file_def)
  next
    case (Bytes b)
    obtain r s1 where a: "openpyxl_attempt b s = (r, s1)"
      by (cases "openpyxl_attempt b s")
    with openpyxl_attempt_readonly [of b s] have i1: "readonly s1 = readonly s" by simp
    then have x: "xlrd_available s1 = xlrd_available s"
      by (simp add: readonly_def inputs_def)
    have "readonly (snd (xlrd_stage b s1)) = readonly s"
      using xlrd_stage_readonly [of b s1] i1 by simp
    with Some Bytes a i1 x xlrd_stage_readonly [of b s] show ?thesis
      by (cases r) (simp_all add: process_excel_file_def)
  qed
qed

lemma process_excel_file_simd:
  assumes "simd s t"
  shows "rsimd (process_excel_file s) (process_excel_file t)"
proof (cases "file_data (imp s)")
  case None
  with assms simd_reads(3) [OF assms] show ?thesis
    by (simp add: process_excel_file_def rsimd_def)
next
  case (Some pl)
  show ?thesis
  proof (cases pl)
    case Bad_base64
    with Some assms simd_reads(3) [OF assms] show ?thesis
      by (simp add: process_excel_file_def rsimd_def)
  next
    case (Bytes b)
    obtain r s1 where a: "openpyxl_attempt b s = (r, s1)"
      by (cases "openpyxl_attempt b s")
    obtain r' t1 where a': "openpyxl_attempt b t = (r', t1)"
      by (cases "openpyxl_attempt b t")
    from openpyxl_attempt_simd [OF assms, of b] a a' have r: "r' = r" and s1: "simd s1 t1"
      by (simp_all add: rsimd_def)
    have fd: "file_data (imp t) = Some (Bytes b)"
      using Some Bytes simd_reads(3) [OF assms] by simp
    note av = simd_reads(5,6) [OF assms] simd_reads(6) [OF s1]
    show ?thesis
      using Some Bytes fd a a' r s1 av assms xlrd_stage_simd [OF assms, of b]
        xlrd_stage_simd [OF s1, of b]
      by (cases r) (simp_all add: process_excel_file_def rsimd_def)
  qed
qed

lemma readonly_unlink_lines: "readonly (unlink_lines s) = readonly s"
  by (simp add: readonly_def inputs_def unlink_lines_def)

lemma transaction_set_unlink_lines: "transaction_set (unlink_lines s) = []"
  by (simp add: transaction_set_def self_lines_def unlink_lines_def)

lemma action_process_file_readonly: "readonly (snd (action_process_file s)) = readonly s"
proof (cases "file_data (imp s)")
  case None
  then show ?thesis by (simp add: action_process_file_def)
next
  case (Some pl)
  let ?u = "unlink_lines s"
  let ?p = "case compute_file_type (file_name (imp s)) of
              Txt \<Rightarrow> process_txt_file ?u | Excel \<Rightarrow> process_excel_file ?u"
  obtain r s1 where a: "?p = (r, s1)" by (cases ?p)
  have "readonly (snd ?p) = readonly s"
    using process_txt_file_readonly [of ?u] process_excel_file_readonly [of ?u]
    by (simp add: readonly_unlink_lines split: file_type.splits)
  with a have "readonly s1 = readonly s" by simp
  with Some a show ?thesis
    by (cases r) (simp_all add: action_process_file_def readonly_def inputs_def)
qed

lemma action_process_file_same_inputs:
  assumes i: "inputs s = inputs t"
    and c: "compute_file_type (file_name (imp s)) = Txt \<or> today (now s) = today (now t)"
  shows "fst (action_process_file s) = fst (action_process_file t) \<and>
         (file_data (imp s) = None \<or>
          transaction_set (snd (action_process_file s)) =
          transaction_set (snd (action_process_file t)))"
proof (cases "file_data (imp s)")
  case None
  with i have "file_data (imp t) = None" by (simp add: inputs_def)
  with None show ?thesis by (simp add: action_process_file_def)
next
  case (Some pl)
  from i have fd: "file_data (imp t) = Some pl" and fn: "file_name (imp t) = file_name (imp s)"
    using Some by (simp_all add: inputs_def)
  let ?us = "unlink_lines s" and ?ut = "unlink_lines t"
  let ?ps = "case compute_file_type (file_name (imp s)) of
              Txt \<Rightarrow> process_txt_file ?us | Excel \<Rightarrow> process_excel_file ?us"
  let ?pt = "case compute_file_type (file_name (imp s)) of
              Txt \<Rightarrow> process_txt_file ?ut | Excel \<Rightarrow> process_excel_file ?ut"
  obtain r s1 where a: "?ps = (r, s1)" by (cases ?ps)
  obtain r' t1 where a': "?pt = (r', t1)" by (cases ?pt)
  have ro: "readonly ?us = readonly s" "readonly ?ut = readonly t"
    by (simp_all add: readonly_unlink_lines)
  then have iu: "inputs ?us = inputs ?ut"
    using i by (simp add: readonly_def)
  have su: "sim ?us ?ut"
    using iu by (simp add: sim_def transaction_set_unlink_lines)
  have "rsim ?ps ?pt"
  proof (cases "compute_file_type (file_name (imp s))")
    case Txt
    with process_txt_file_sim [OF su] show ?thesis by simp
  next
    case Excel
    with c have "today (now s) = today (now t)" by simp
    with ro have "today (now ?us) = today (now ?ut)" by (simp add: readonly_def)
    with su have "simd ?us ?ut" by (simp add: simd_def)
    from process_excel_file_simd [OF this] Excel show ?thesis
      by (simp add: rsim_def rsimd_def simd_def)
  qed
  with a a' have r: "r' = r" and s1: "sim s1 t1" by (simp_all add: rsim_def)
  from s1 have ts: "transaction_set s1 = transaction_set t1" by (simp add: sim_def)
  then have "length (self_lines s1) = length (self_lines t1)"
    by (simp add: transaction_set_def) (metis length_map)
  then have len: "(self_lines s1 = []) = (self_lines t1 = [])"
    by (metis length_0_conv)
  have upd: "transaction_set (x\<lparr>imp := (imp x)\<lparr>imp_state := st, imp_name := nm\<rparr>\<rparr>) = transaction_set x"
    for x st nm
    by (simp add: transaction_set_def self_lines_def)
  show ?thesis
    using Some fd fn a a' r ts len upd
    by (cases r) (simp_all add: action_process_file_def)
qed

text \<open>
  C4, as stated, fails: for a spreadsheet row without a date the transaction takes the
  date of the day of the call, so the same file processed again on the next day gives a
  transaction set that differs from the first.
\<close>

theorem process_next_day_differs:
  "fst (action_process_file ex_xlsx) = None \<and>
   map transaction_date (transaction_set (snd (action_process_file ex_xlsx))) =
     [\<lparr>d_year = 2025, d_month = 1, d_day = 10\<rparr>] \<and>
   fst (action_process_file (snd (action_process_file ex_xlsx)\<lparr>now := ex_next_day\<rparr>)) = None \<and>
   map transaction_date
     (transaction_set (snd (action_process_file (snd (action_process_file ex_xlsx)\<lparr>now := ex_next_day\<rparr>)))) =
     [\<lparr>d_year = 2025, d_month = 1, d_day = 11\<rparr>]"
  by code_simp

text \<open>
  C4, amended. A second call of \<open>action_process_file\<close> on the same Import, with the file as
  it was, made while the clock reads the date of the first call (for a text file: at any
  time), has the outcome of the first call and leaves the same transaction set,
  identifiers ignored: the earlier set is deleted before the file is parsed, never
  appended to.
\<close>

theorem process_twice_same_transactions:
  assumes "compute_file_type (file_name (imp s)) = Txt \<or> today c = today (now s)"
  shows "fst (action_process_file (snd (action_process_file s)\<lparr>now := c\<rparr>)) =
           fst (action_process_file s) \<and>
         transaction_set (snd (action_process_file (snd (action_process_file s)\<lparr>now := c\<rparr>))) =
           transaction_set (snd (action_process_file s))"
proof -
  let ?s1 = "snd (action_process_file s)"
  let ?t = "?s1\<lparr>now := c\<rparr>"
  have ro: "readonly ?s1 = readonly s" by (rule action_process_file_readonly)
  then have i: "inputs s = inputs ?t"
    by (simp add: readonly_def inputs_def)
  have c': "compute_file_type (file_name (imp s)) = Txt \<or> today (now s) = today (now ?t)"
    using assms by auto
  note same = action_process_file_same_inputs [OF i c']
  show ?thesis
  proof (cases "file_data (imp s)")
    case None
    then have "action_process_file s = (Some No_file, s)"
      by (simp add: action_process_file_def)
    moreover from None have "action_process_file (s\<lparr>now := c\<rparr>) = (Some No_file, s\<lparr>now := c\<rparr>)"
      by (simp add: action_process_file_def)
    ultimately show ?thesis
      by (simp add: transaction_set_def self_lines_def)
  next
    case (Some pl)
    with same show ?thesis by simp
  qed
qed

theorem process_twice_same_transactions_witness:
  "fst (action_process_file ex_env) = None \<and>
   map operation_number (transaction_set (snd (action_process_file ex_env))) = [''456789''] \<and>
   fst (action_process_file (snd (action_process_file ex_env)\<lparr>now := ex_next_day\<rparr>)) = None \<and>
   transaction_set (snd (action_process_file (snd (action_process_file ex_env)\<lparr>now := ex_next_day\<rparr>))) =
     transaction_set (snd (action_process_file ex_env))"
proof -
  have t: "compute_file_type (file_name (imp ex_env)) = Txt \<or> today ex_next_day = today (now ex_env)"
    by code_simp
  have a: "fst (action_process_file ex_env) = None" by code_simp
  have b: "map operation_number (transaction_set (snd (action_process_file ex_env))) = [''456789'']"
    by code_simp
  show ?thesis
    using process_twice_same_transactions [OF t] a b by simp
qed

end
